theory Spec2Isabelle
  imports Main
begin

section \<open>Data model\<close>

text \<open>
  The two applications \<^verbatim>\<open>app_with_mcp.py\<close> and \<^verbatim>\<open>app_without_mcp.py\<close> share the class
  \<^verbatim>\<open>LLMConfig\<close> and the functions \<^verbatim>\<open>get_preset_configs\<close>, \<^verbatim>\<open>get_default_config\<close>,
  \<^verbatim>\<open>get_available_routes\<close>, \<^verbatim>\<open>create_custom_llm_config\<close> and
  \<^verbatim>\<open>build_brain_with_config\<close> word for word; they are embedded once.

  Python floats are not computed with anywhere in these files (a temperature is read,
  stored and handed on, and what a request supplies as its temperature is never
  inspected), so the type of temperature values is a type parameter \<open>'f\<close>.
\<close>

text \<open>Exceptions: \<^verbatim>\<open>ValueError\<close> is what \<^verbatim>\<open>float()\<close>, \<^verbatim>\<open>int()\<close> and a failed tuple
  unpacking raise; \<open>Raised msg\<close> is any other \<^verbatim>\<open>Exception\<close> raised by a collaborator
  (LLM provider, reasoning engine, MCP client).\<close>

datatype exn = ValueError | Raised string

text \<open>The process environment read by \<^verbatim>\<open>os.getenv\<close>.\<close>

type_synonym env = "string \<rightharpoonup> string"

definition getenv :: "env \<Rightarrow> string \<Rightarrow> string \<Rightarrow> string" where
  "getenv e k d = (case e k of None \<Rightarrow> d | Some v \<Rightarrow> v)"

record 'f LLMConfig =
  api_type :: string
  api_key :: string
  base_url :: string
  api_version :: string
  model :: string
  temperature :: 'f
  max_tokens :: int
  vision_enabled :: bool

text \<open>A tool handed to the reasoning engine (class \<^verbatim>\<open>BrainTool\<close>).\<close>

record BrainTool =
  name :: string
  description :: string

text \<open>Values stored in the two dictionaries the request handler builds
  (\<^verbatim>\<open>llm_config_dict\<close> and \<^verbatim>\<open>kwargs\<close>, both \<^verbatim>\<open>Dict[str, Any]\<close>).\<close>

datatype 'f pyval =
    PyNone
  | PyStr string
  | PyFloat 'f
  | PyInt int
  | PyBool bool
  | PyTools "BrainTool list"

type_synonym 'f pydict = "string \<rightharpoonup> 'f pyval"

section \<open>Configuration loaded from the environment\<close>

text \<open>
  \<^verbatim>\<open>LLMConfig(api_type=os.getenv(P + "_API_TYPE", "azure"), ...,
            temperature=float(os.getenv(P + "_TEMPERATURE", t)),
            max_tokens=int(os.getenv(P + "_MAX_TOKENS", "4000")))\<close>
  is written five times in the source, once per preset and once for the default
  configuration, differing in the key prefix and in three literal defaults.
  The builtins \<^verbatim>\<open>float\<close> and \<^verbatim>\<open>int\<close> on strings are parameters \<open>float_of\<close> and
  \<open>int_of\<close>: \<open>None\<close> is the \<^verbatim>\<open>ValueError\<close> they raise. The arguments are evaluated in
  the order written, so \<^verbatim>\<open>float\<close> is called before \<^verbatim>\<open>int\<close>; \<^verbatim>\<open>vision_enabled\<close> keeps
  the constructor's default \<^verbatim>\<open>False\<close>.
\<close>

definition config_from_env ::
  "(string \<Rightarrow> 'f option) \<Rightarrow> (string \<Rightarrow> int option) \<Rightarrow> env \<Rightarrow>
   string \<Rightarrow> string \<Rightarrow> string \<Rightarrow> string \<Rightarrow> exn + 'f LLMConfig" where
  "config_from_env float_of int_of e prefix d_version d_model d_temperature =
     (case float_of (getenv e (prefix @ ''_TEMPERATURE'') d_temperature) of
        None \<Rightarrow> Inl ValueError
      | Some t \<Rightarrow>
          (case int_of (getenv e (prefix @ ''_MAX_TOKENS'') ''4000'') of
             None \<Rightarrow> Inl ValueError
           | Some m \<Rightarrow>
               Inr \<lparr> api_type = getenv e (prefix @ ''_API_TYPE'') ''azure'',
                     api_key = getenv e (prefix @ ''_API_KEY'') '''',
                     base_url = getenv e (prefix @ ''_BASE_URL'') '''',
                     api_version = getenv e (prefix @ ''_API_VERSION'') d_version,
                     model = getenv e (prefix @ ''_MODEL'') d_model,
                     temperature = t,
                     max_tokens = m,
                     vision_enabled = False \<rparr>))"

text \<open>\<^verbatim>\<open>get_preset_configs\<close>: the dictionary of the four presets, in the order written.\<close>

definition get_preset_configs ::
  "(string \<Rightarrow> 'f option) \<Rightarrow> (string \<Rightarrow> int option) \<Rightarrow> env \<Rightarrow>
   exn + (string \<times> 'f LLMConfig) list" where
  "get_preset_configs float_of int_of e =
     (case config_from_env float_of int_of e ''GPT_4O'' ''2024-06-01'' ''gpt-4o'' ''0'' of
        Inl x \<Rightarrow> Inl x
      | Inr c1 \<Rightarrow>
     (case config_from_env float_of int_of e ''GPT_4O_MINI'' ''2024-06-01'' ''gpt-4o-mini'' ''0.1'' of
        Inl x \<Rightarrow> Inl x
      | Inr c2 \<Rightarrow>
     (case config_from_env float_of int_of e ''GPT_41'' ''2025-03-01-preview'' ''gpt-4.1'' ''0.7'' of
        Inl x \<Rightarrow> Inl x
      | Inr c3 \<Rightarrow>
     (case config_from_env float_of int_of e ''O4_MINI'' ''2025-03-01-preview'' ''o4-mini'' ''0.7'' of
        Inl x \<Rightarrow> Inl x
      | Inr c4 \<Rightarrow>
          Inr [(''gpt-4o'', c1), (''gpt-4o-mini'', c2), (''gpt-4.1'', c3), (''o4-mini'', c4)]))))"

definition get_default_config ::
  "(string \<Rightarrow> 'f option) \<Rightarrow> (string \<Rightarrow> int option) \<Rightarrow> env \<Rightarrow> exn + 'f LLMConfig" where
  "get_default_config float_of int_of e =
     config_from_env float_of int_of e ''DEFAULT'' ''2024-06-01'' ''gpt-4o'' ''0.7''"

definition get_available_routes :: "string list" where
  "get_available_routes = ['''', ''raw'', ''native'', ''cot'', ''dcot'', ''plan'', ''python'']"

text \<open>\<^verbatim>\<open>preset_configs.get(preset_model, default_config)\<close>.\<close>

definition preset_get ::
  "(string \<times> 'f LLMConfig) list \<Rightarrow> string \<Rightarrow> 'f LLMConfig \<Rightarrow> 'f LLMConfig" where
  "preset_get preset_configs preset_model default_config =
     (case map_of preset_configs preset_model of
        None \<Rightarrow> default_config
      | Some c \<Rightarrow> c)"

text \<open>
  The module-level statements
  \<^verbatim>\<open>preset_configs = get_preset_configs(); default_config = get_default_config()\<close>
  run once, when the module is imported, before the interface is built and before any
  request handler exists. An exception there ends the process.
\<close>

definition module_globals ::
  "(string \<Rightarrow> 'f option) \<Rightarrow> (string \<Rightarrow> int option) \<Rightarrow> env \<Rightarrow>
   exn + ((string \<times> 'f LLMConfig) list \<times> 'f LLMConfig)" where
  "module_globals float_of int_of e =
     (case get_preset_configs float_of int_of e of
        Inl x \<Rightarrow> Inl x
      | Inr preset_configs \<Rightarrow>
          (case get_default_config float_of int_of e of
             Inl x \<Rightarrow> Inl x
           | Inr default_config \<Rightarrow> Inr (preset_configs, default_config)))"

text \<open>\<^verbatim>\<open>create_custom_llm_config\<close>: the eight-key dictionary; the arguments are stored as
  they are given.\<close>

definition create_custom_llm_config ::
  "'f pyval \<Rightarrow> 'f pyval \<Rightarrow> 'f pyval \<Rightarrow> 'f pyval \<Rightarrow> 'f pyval \<Rightarrow> 'f pyval \<Rightarrow> 'f pyval \<Rightarrow>
   'f pydict" where
  "create_custom_llm_config a k b v m t n =
     [''api_type'' \<mapsto> a, ''api_key'' \<mapsto> k, ''base_url'' \<mapsto> b, ''api_version'' \<mapsto> v,
      ''model'' \<mapsto> m, ''temperature'' \<mapsto> t, ''max_tokens'' \<mapsto> n,
      ''vision_enabled'' \<mapsto> PyBool False]"

section \<open>Collaborators and effects\<close>

text \<open>
  The handlers call code outside these files: the provider factory
  \<^verbatim>\<open>create_llm_provider\<close>, the engine's \<^verbatim>\<open>Brain.step\<close>, and the MCP client. What
  they answer is a parameter, the record \<open>world\<close>; each may raise. A brain is
  \<^verbatim>\<open>Brain(python_env=LocalPythonEnv(verbose=False), llm=llm)\<close>, so it is identified
  with its provider, of type \<open>'l\<close>. The engine's answer is a tuple of values of type \<open>'v\<close>,
  kept as a list. Exceptions that are not subclasses of \<^verbatim>\<open>Exception\<close> (task
  cancellation, keyboard interrupt) are outside the model.
\<close>

record ('f, 'l, 'v) world =
  create_llm_provider :: "'f pydict \<Rightarrow> exn + 'l"
  brain_step :: "'l \<Rightarrow> 'f pydict \<Rightarrow> exn + 'v list"
  client_aenter :: "exn option"
  filesystem_source :: "exn + BrainTool list"
  mcp_server_source :: "string \<Rightarrow> string \<Rightarrow> exn + BrainTool list"
  create_final_answer_tool :: "exn + BrainTool"

text \<open>The calls made to collaborators, in the order made.\<close>

datatype 'f call =
    CreateLLMProvider "'f pydict"
  | ClientEnter
  | AddFilesystemTool
  | AddMCPServer string string
  | BrainStep "'f pydict"

text \<open>The lines printed, one constructor per \<^verbatim>\<open>print\<close> template (the blocks of
  lines 225-231, 233-239 and 242-246 of \<^verbatim>\<open>app_with_mcp.py\<close> are one constructor each,
  carrying the values they interpolate, in the order printed).\<close>

datatype 'f msg =
    AddedFilesystemTool
  | FailedFilesystemTool exn
  | AddedSSEServer string
  | FailedSSEServer exn
  | AddedStdioServer string
  | FailedStdioServer exn
  | FailedSetupMCPTools exn
  | UsingPreset string "'f pyval list"
  | UsingCustom "'f pyval list"
  | BuildingBrain "'f pyval list"
  | UsingTools nat "string list"
  | FailedGetTools exn
  | ExecutingStep "'f pyval" bool

record ('r, 'f) outcome =
  returned :: 'r
  calls :: "'f call list"
  printed :: "'f msg list"

section \<open>Tool aggregation (\<^verbatim>\<open>app_with_mcp.py\<close>)\<close>

text \<open>
  Modelled from the spec: the module \<^verbatim>\<open>mcp_integration\<close> (class \<^verbatim>\<open>MCPBrainClient\<close> with
  \<^verbatim>\<open>add_mcp_server\<close> and \<^verbatim>\<open>get_tools_for_brain\<close>, and \<^verbatim>\<open>add_filesystem_tool\<close>) is
  imported by the source but is not among the source files. Following section 4.2 of the
  specification, a client holds one flat catalog; registering a source appends the tools
  it reports in the order reported, a tool whose name is already in the catalog is
  dropped (first registered wins), a source that fails to connect or to list its tools
  raises and leaves the catalog as it was, and \<^verbatim>\<open>get_tools_for_brain\<close> returns the
  catalog.
\<close>

record MCPBrainClient =
  catalog :: "BrainTool list"

definition new_MCPBrainClient :: MCPBrainClient where
  "new_MCPBrainClient = \<lparr> catalog = [] \<rparr>"

definition add_tool :: "BrainTool list \<Rightarrow> BrainTool \<Rightarrow> BrainTool list" where
  "add_tool cat t = (if name t \<in> set (map name cat) then cat else cat @ [t])"

definition register_tools :: "BrainTool list \<Rightarrow> MCPBrainClient \<Rightarrow> MCPBrainClient" where
  "register_tools ts c = c \<lparr> catalog := foldl add_tool (catalog c) ts \<rparr>"

definition get_tools_for_brain :: "MCPBrainClient \<Rightarrow> BrainTool list" where
  "get_tools_for_brain c = catalog c"

text \<open>
  One guarded registration of \<^verbatim>\<open>setup_mcp_tools\<close>:
  \<^verbatim>\<open>try: await add(...); print(ok)  except Exception as e: print(warning(e))\<close>.
  The exception is caught here and goes no further.
\<close>

definition try_add ::
  "exn + BrainTool list \<Rightarrow> 'f msg \<Rightarrow> (exn \<Rightarrow> 'f msg) \<Rightarrow> MCPBrainClient \<Rightarrow>
   MCPBrainClient \<times> 'f msg list" where
  "try_add src ok warn c =
     (case src of
        Inl x \<Rightarrow> (c, [warn x])
      | Inr ts \<Rightarrow> (register_tools ts c, [ok]))"

text \<open>\<^verbatim>\<open>v = os.getenv(k); if v: ...\<close>: the variable is set and not the empty string.\<close>

definition env_truthy :: "env \<Rightarrow> string \<Rightarrow> string option" where
  "env_truthy e k = (case e k of None \<Rightarrow> None | Some v \<Rightarrow> if v = [] then None else Some v)"

record ('r, 'f) mcp_outcome = "('r, 'f) outcome" +
  mcp_client :: "MCPBrainClient option"

text \<open>
  \<^verbatim>\<open>setup_mcp_tools\<close>. The global \<^verbatim>\<open>mcp_client\<close> is passed in and returned. It is
  assigned before \<^verbatim>\<open>__aenter__\<close> is awaited, so it stays set when that call raises.
\<close>

definition setup_mcp_tools ::
  "('f, 'l, 'v) world \<Rightarrow> env \<Rightarrow> MCPBrainClient option \<Rightarrow> (exn + MCPBrainClient, 'f) mcp_outcome" where
  "setup_mcp_tools w e g =
     (case g of
        Some c \<Rightarrow> \<lparr> returned = Inr c, calls = [], printed = [], mcp_client = Some c \<rparr>
      | None \<Rightarrow>
          (case client_aenter w of
             Some x \<Rightarrow>
               \<lparr> returned = Inl x, calls = [ClientEnter], printed = [],
                 mcp_client = Some new_MCPBrainClient \<rparr>
           | None \<Rightarrow>
               (let (c1, p1) = try_add (filesystem_source w) AddedFilesystemTool
                                  FailedFilesystemTool new_MCPBrainClient;
                    (c2, p2, k2) =
                      (case env_truthy e ''MCP_SSE_URL'' of
                         None \<Rightarrow> (c1, [], [])
                       | Some sse_url \<Rightarrow>
                           (let (c, p) = try_add (mcp_server_source w ''sse'' sse_url)
                                           (AddedSSEServer sse_url) FailedSSEServer c1
                            in (c, p, [AddMCPServer ''sse'' sse_url])));
                    (c3, p3, k3) =
                      (case env_truthy e ''MCP_STDIO_COMMAND'' of
                         None \<Rightarrow> (c2, [], [])
                       | Some stdio_command \<Rightarrow>
                           (let (c, p) = try_add (mcp_server_source w ''stdio'' stdio_command)
                                           (AddedStdioServer stdio_command) FailedStdioServer c2
                            in (c, p, [AddMCPServer ''stdio'' stdio_command])))
                in \<lparr> returned = Inr c3,
                     calls = [ClientEnter, AddFilesystemTool] @ k2 @ k3,
                     printed = p1 @ p2 @ p3,
                     mcp_client = Some c3 \<rparr>)))"

text \<open>
  \<^verbatim>\<open>get_available_tools\<close>. The final answer tool is created outside the \<^verbatim>\<open>try\<close>, so
  an exception of \<^verbatim>\<open>create_final_answer_tool\<close> leaves the function; the tool itself is
  bound and not used (\<^verbatim>\<open>return mcp_tools #+ [final_answer_tool]\<close>).
\<close>

definition get_available_tools ::
  "('f, 'l, 'v) world \<Rightarrow> env \<Rightarrow> MCPBrainClient option \<Rightarrow> (exn + BrainTool list, 'f) mcp_outcome" where
  "get_available_tools w e g =
     (let s = setup_mcp_tools w e g;
          (mcp_tools, p) =
            (case returned s of
               Inl x \<Rightarrow> ([], [FailedSetupMCPTools x])
             | Inr c \<Rightarrow> (get_tools_for_brain c, []))
      in case create_final_answer_tool w of
           Inl x \<Rightarrow>
             \<lparr> returned = Inl x, calls = calls s, printed = printed s @ p,
               mcp_client = mcp_client s \<rparr>
         | Inr final_answer_tool \<Rightarrow>
             \<lparr> returned = Inr mcp_tools, calls = calls s, printed = printed s @ p,
               mcp_client = mcp_client s \<rparr>)"

section \<open>Request handlers\<close>

text \<open>
  \<^verbatim>\<open>build_brain_with_config\<close>: the local class \<^verbatim>\<open>Config\<close> copies every item of the
  dictionary into an attribute, so the provider factory receives the dictionary's
  content; the factory may raise, the two constructors around it do not.
\<close>

definition build_brain_with_config :: "('f, 'l, 'v) world \<Rightarrow> 'f pydict \<Rightarrow> exn + 'l" where
  "build_brain_with_config w llm_config_dict = create_llm_provider w llm_config_dict"

text \<open>\<^verbatim>\<open>obs, score, *_ = await brain.step(**kwargs); return obs\<close>: a tuple shorter than
  two raises \<^verbatim>\<open>ValueError\<close>; otherwise the first component is returned.\<close>

definition unpack_obs :: "'v list \<Rightarrow> exn + 'v" where
  "unpack_obs result = (case result of obs # score # rest \<Rightarrow> Inr obs | _ \<Rightarrow> Inl ValueError)"

text \<open>
  \<^verbatim>\<open>minion_respond_async\<close> of \<^verbatim>\<open>app_with_mcp.py\<close>. The module globals
  \<^verbatim>\<open>default_config\<close> and \<^verbatim>\<open>mcp_client\<close> are arguments (\<open>default_config\<close>, \<open>g\<close>); the
  seven configuration arguments default to \<^verbatim>\<open>None\<close> and are options. The values
  printed at lines 243-246 are read back from the dictionary under keys just stored, so
  they are the stored values.
\<close>

definition minion_respond_async ::
  "('f, 'l, 'v) world \<Rightarrow> env \<Rightarrow> 'f LLMConfig \<Rightarrow> MCPBrainClient option \<Rightarrow>
   string \<Rightarrow> string \<Rightarrow>
   string option \<Rightarrow> string option \<Rightarrow> string option \<Rightarrow> string option \<Rightarrow> string option \<Rightarrow>
   'f option \<Rightarrow> int option \<Rightarrow>
   string \<Rightarrow> string \<Rightarrow> bool \<Rightarrow> bool \<Rightarrow> (exn + 'v, 'f) mcp_outcome" where
  "minion_respond_async w e default_config g query preset_model
     api_type_arg api_key_arg base_url_arg api_version_arg model_arg temperature_arg
     max_tokens_arg route query_type check_enabled use_tools =
     (let a = PyStr (case api_type_arg of None \<Rightarrow> api_type default_config | Some x \<Rightarrow> x);
          k = PyStr (case api_key_arg of None \<Rightarrow> api_key default_config | Some x \<Rightarrow> x);
          b = PyStr (case base_url_arg of None \<Rightarrow> base_url default_config | Some x \<Rightarrow> x);
          v = PyStr (case api_version_arg of None \<Rightarrow> api_version default_config | Some x \<Rightarrow> x);
          m = PyStr (case model_arg of None \<Rightarrow> model default_config | Some x \<Rightarrow> x);
          t = PyFloat (case temperature_arg of None \<Rightarrow> temperature default_config | Some x \<Rightarrow> x);
          n = PyInt (case max_tokens_arg of None \<Rightarrow> max_tokens default_config | Some x \<Rightarrow> x);
          llm_config_dict = create_custom_llm_config a k b v m t n;
          p0 = [if preset_model \<noteq> ''Custom'' then UsingPreset preset_model [a, m, b, v, t, n]
                else UsingCustom [a, m, b, v, t, n],
                BuildingBrain [a, m, t, n]]
      in case build_brain_with_config w llm_config_dict of
           Inl x \<Rightarrow>
             \<lparr> returned = Inl x, calls = [CreateLLMProvider llm_config_dict], printed = p0,
               mcp_client = g \<rparr>
         | Inr brain \<Rightarrow>
             (let route_param = (if route \<noteq> [] then PyStr route else PyNone);
                  kwargs0 = [''query'' \<mapsto> PyStr query, ''route'' \<mapsto> route_param,
                             ''check'' \<mapsto> PyBool check_enabled];
                  kwargs1 = (if route = ''python'' \<and> query_type \<noteq> []
                             then kwargs0(''query_type'' \<mapsto> PyStr query_type) else kwargs0);
                  (kwargs, k1, p1, g') =
                    (if use_tools then
                       (let r = get_available_tools w e g
                        in case returned r of
                             Inr tools \<Rightarrow>
                               (kwargs1(''tools'' \<mapsto> PyTools tools), calls r,
                                printed r @ [UsingTools (length tools) (map name tools)],
                                mcp_client r)
                           | Inl x \<Rightarrow>
                               (kwargs1, calls r, printed r @ [FailedGetTools x], mcp_client r))
                     else (kwargs1, [], [], g))
              in \<lparr> returned = (case brain_step w brain kwargs of
                                 Inl x \<Rightarrow> Inl x
                               | Inr result \<Rightarrow> unpack_obs result),
                   calls = CreateLLMProvider llm_config_dict # k1 @ [BrainStep kwargs],
                   printed = p0 @ p1 @ [ExecutingStep route_param check_enabled],
                   mcp_client = g' \<rparr>))"

text \<open>
  \<^verbatim>\<open>minion_respond_async\<close> of \<^verbatim>\<open>app_without_mcp.py\<close>. The module globals
  \<^verbatim>\<open>preset_configs\<close> and \<^verbatim>\<open>default_config\<close> are arguments. The configuration arguments
  are options so that a field that is not supplied (\<^verbatim>\<open>None\<close>) can be passed; this
  handler stores them as they come.
\<close>

definition str_val :: "string option \<Rightarrow> 'f pyval" where
  "str_val x = (case x of None \<Rightarrow> PyNone | Some s \<Rightarrow> PyStr s)"

definition float_val :: "'f option \<Rightarrow> 'f pyval" where
  "float_val x = (case x of None \<Rightarrow> PyNone | Some s \<Rightarrow> PyFloat s)"

definition int_val :: "int option \<Rightarrow> 'f pyval" where
  "int_val x = (case x of None \<Rightarrow> PyNone | Some s \<Rightarrow> PyInt s)"

definition minion_respond_async_without_mcp ::
  "('f, 'l, 'v) world \<Rightarrow> (string \<times> 'f LLMConfig) list \<Rightarrow> 'f LLMConfig \<Rightarrow>
   string \<Rightarrow> string \<Rightarrow>
   string option \<Rightarrow> string option \<Rightarrow> string option \<Rightarrow> string option \<Rightarrow> string option \<Rightarrow>
   'f option \<Rightarrow> int option \<Rightarrow>
   string \<Rightarrow> string \<Rightarrow> bool \<Rightarrow> (exn + 'v, 'f) outcome" where
  "minion_respond_async_without_mcp w preset_configs default_config query preset_model
     api_type_arg api_key_arg base_url_arg api_version_arg model_arg temperature_arg
     max_tokens_arg route query_type check_enabled =
     (let llm_config_dict =
            (if preset_model \<noteq> ''Custom'' then
               (let config_obj = preset_get preset_configs preset_model default_config
                in [''api_type'' \<mapsto> PyStr (api_type config_obj),
                    ''api_key'' \<mapsto> PyStr (api_key config_obj),
                    ''base_url'' \<mapsto> PyStr (base_url config_obj),
                    ''api_version'' \<mapsto> PyStr (api_version config_obj),
                    ''model'' \<mapsto> PyStr (model config_obj),
                    ''temperature'' \<mapsto> PyFloat (temperature config_obj),
                    ''max_tokens'' \<mapsto> PyInt (max_tokens config_obj),
                    ''vision_enabled'' \<mapsto> PyBool (vision_enabled config_obj)])
             else
               create_custom_llm_config (str_val api_type_arg) (str_val api_key_arg)
                 (str_val base_url_arg) (str_val api_version_arg) (str_val model_arg)
                 (float_val temperature_arg) (int_val max_tokens_arg))
      in case build_brain_with_config w llm_config_dict of
           Inl x \<Rightarrow>
             \<lparr> returned = Inl x, calls = [CreateLLMProvider llm_config_dict], printed = [] \<rparr>
         | Inr brain \<Rightarrow>
             (let route_param = (if route \<noteq> [] then PyStr route else PyNone);
                  kwargs0 = [''query'' \<mapsto> PyStr query, ''route'' \<mapsto> route_param,
                             ''check'' \<mapsto> PyBool check_enabled];
                  kwargs = (if route = ''python'' \<and> query_type \<noteq> []
                            then kwargs0(''query_type'' \<mapsto> PyStr query_type) else kwargs0)
              in \<lparr> returned = (case brain_step w brain kwargs of
                                 Inl x \<Rightarrow> Inl x
                               | Inr result \<Rightarrow> unpack_obs result),
                   calls = [CreateLLMProvider llm_config_dict, BrainStep kwargs],
                   printed = [] \<rparr>))"

text \<open>What a run handed to the provider factory and to \<^verbatim>\<open>brain.step\<close>.\<close>

fun factory_args :: "'f call list \<Rightarrow> 'f pydict list" where
  "factory_args [] = []"
| "factory_args (CreateLLMProvider d # cs) = d # factory_args cs"
| "factory_args (c # cs) = factory_args cs"

fun step_args :: "'f call list \<Rightarrow> 'f pydict list" where
  "step_args [] = []"
| "step_args (BrainStep d # cs) = d # step_args cs"
| "step_args (c # cs) = step_args cs"

text \<open>The value stored under a key in each dictionary handed to the provider factory,
  and in each payload handed to \<^verbatim>\<open>brain.step\<close> (\<open>None\<close>: the key is absent).\<close>

definition config_values :: "string \<Rightarrow> 'f call list \<Rightarrow> 'f pyval option list" where
  "config_values key cs = map (\<lambda>d. d key) (factory_args cs)"

definition payload_values :: "string \<Rightarrow> 'f call list \<Rightarrow> 'f pyval option list" where
  "payload_values key cs = map (\<lambda>d. d key) (step_args cs)"

text \<open>
  A process from start to its first request: the module is imported (the globals are
  computed from the environment, \<^verbatim>\<open>mcp_client = None\<close>), then the handler runs. When the
  import raises, no handler runs and no collaborator is called.
\<close>

definition app_with_mcp ::
  "(string \<Rightarrow> 'f option) \<Rightarrow> (string \<Rightarrow> int option) \<Rightarrow> ('f, 'l, 'v) world \<Rightarrow> env \<Rightarrow>
   string \<Rightarrow> string \<Rightarrow>
   string option \<Rightarrow> string option \<Rightarrow> string option \<Rightarrow> string option \<Rightarrow> string option \<Rightarrow>
   'f option \<Rightarrow> int option \<Rightarrow>
   string \<Rightarrow> string \<Rightarrow> bool \<Rightarrow> bool \<Rightarrow> (exn + 'v, 'f) mcp_outcome" where
  "app_with_mcp float_of int_of w e query preset_model
     api_type_arg api_key_arg base_url_arg api_version_arg model_arg temperature_arg
     max_tokens_arg route query_type check_enabled use_tools =
     (case module_globals float_of int_of e of
        Inl x \<Rightarrow> \<lparr> returned = Inl x, calls = [], printed = [], mcp_client = None \<rparr>
      | Inr (preset_configs, default_config) \<Rightarrow>
          minion_respond_async w e default_config None query preset_model
            api_type_arg api_key_arg base_url_arg api_version_arg model_arg temperature_arg
            max_tokens_arg route query_type check_enabled use_tools)"

definition app_without_mcp ::
  "(string \<Rightarrow> 'f option) \<Rightarrow> (string \<Rightarrow> int option) \<Rightarrow> ('f, 'l, 'v) world \<Rightarrow> env \<Rightarrow>
   string \<Rightarrow> string \<Rightarrow>
   string option \<Rightarrow> string option \<Rightarrow> string option \<Rightarrow> string option \<Rightarrow> string option \<Rightarrow>
   'f option \<Rightarrow> int option \<Rightarrow>
   string \<Rightarrow> string \<Rightarrow> bool \<Rightarrow> (exn + 'v, 'f) outcome" where
  "app_without_mcp float_of int_of w e query preset_model
     api_type_arg api_key_arg base_url_arg api_version_arg model_arg temperature_arg
     max_tokens_arg route query_type check_enabled =
     (case module_globals float_of int_of e of
        Inl x \<Rightarrow> \<lparr> returned = Inl x, calls = [], printed = [] \<rparr>
      | Inr (preset_configs, default_config) \<Rightarrow>
          minion_respond_async_without_mcp w preset_configs default_config query preset_model
            api_type_arg api_key_arg base_url_arg api_version_arg model_arg temperature_arg
            max_tokens_arg route query_type check_enabled)"

section \<open>Concrete parsers, environments and collaborators\<close>

text \<open>
  To run the definitions on concrete inputs, \<open>float_of\<close> and \<open>int_of\<close> are instantiated
  with parsers of plain unsigned decimal literals: \<open>decimal_int\<close> reads a non-empty
  string of ASCII digits, \<open>decimal_float\<close> accepts digits with an optional fraction and
  keeps the literal itself as the value, so that a temperature is represented by its
  text. Python's builtins accept more (signs, blanks, underscores, exponents, \<^verbatim>\<open>inf\<close>,
  \<^verbatim>\<open>nan\<close>); on the strings used below, which are \<^verbatim>\<open>0\<close>, \<^verbatim>\<open>0.1\<close>, \<^verbatim>\<open>0.7\<close>, \<^verbatim>\<open>4000\<close>
  and the word \<^verbatim>\<open>hot\<close>, they agree with these.
\<close>

definition digits_only :: "string \<Rightarrow> bool" where
  "digits_only s = (s \<noteq> [] \<and> list_all (\<lambda>c. c \<in> set ''0123456789'') s)"

definition decimal_int :: "string \<Rightarrow> int option" where
  "decimal_int s =
     (if digits_only s then Some (foldl (\<lambda>n c. 10 * n + (of_char c - 48)) 0 s) else None)"

definition decimal_float :: "string \<Rightarrow> string option" where
  "decimal_float s =
     (let i = takeWhile (\<lambda>c. c \<noteq> CHR ''.'') s; r = dropWhile (\<lambda>c. c \<noteq> CHR ''.'') s
      in if digits_only i \<and> (r = [] \<or> digits_only (tl r)) then Some s else None)"

text \<open>The environment with no variable set, and one with a temperature that is no
  number.\<close>

definition env_empty :: env where
  "env_empty = Map.empty"

definition env_hot :: env where
  "env_hot = [''DEFAULT_TEMPERATURE'' \<mapsto> ''hot'']"

definition env_sse_stdio :: env where
  "env_sse_stdio = [''MCP_SSE_URL'' \<mapsto> ''http://localhost:8000/sse'',
                    ''MCP_STDIO_COMMAND'' \<mapsto> ''python example_mcp_server.py'']"

text \<open>Tools: two of a filesystem server, two of \<^verbatim>\<open>example_mcp_server.py\<close>, and a final
  answer tool.\<close>

definition read_file_tool :: BrainTool where
  "read_file_tool = \<lparr> name = ''read_file'', description = ''Read a file'' \<rparr>"

definition list_directory_tool :: BrainTool where
  "list_directory_tool = \<lparr> name = ''list_directory'', description = ''List a directory'' \<rparr>"

definition calculator_tool :: BrainTool where
  "calculator_tool =
     \<lparr> name = ''calculator'', description = ''Perform basic arithmetic calculations'' \<rparr>"

definition echo_tool :: BrainTool where
  "echo_tool = \<lparr> name = ''echo'', description = ''Echo back the provided text'' \<rparr>"

definition final_answer_tool :: BrainTool where
  "final_answer_tool = \<lparr> name = ''final_answer'', description = ''Give the final answer'' \<rparr>"

text \<open>
  A world whose engine answers \<open>(''4'', score, extra)\<close>, whose filesystem and stdio
  sources connect and whose SSE source refuses the connection.
\<close>

definition sample_world :: "string \<Rightarrow> string \<Rightarrow> (string, unit, string) world" where
  "sample_world score extra =
     \<lparr> create_llm_provider = (\<lambda>d. Inr ()),
       brain_step = (\<lambda>l kw. Inr [''4'', score, extra]),
       client_aenter = None,
       filesystem_source = Inr [read_file_tool, list_directory_tool],
       mcp_server_source =
         (\<lambda>kind p. if kind = ''sse'' then Inl (Raised ''connection refused'')
                    else Inr [calculator_tool, echo_tool]),
       create_final_answer_tool = Inr final_answer_tool \<rparr>"

text \<open>The globals of a process started in the empty environment.\<close>

definition default_config_0 :: "string LLMConfig" where
  "default_config_0 =
     \<lparr> api_type = ''azure'', api_key = [], base_url = [], api_version = ''2024-06-01'',
       model = ''gpt-4o'', temperature = ''0.7'', max_tokens = 4000, vision_enabled = False \<rparr>"

definition preset_configs_0 :: "(string \<times> string LLMConfig) list" where
  "preset_configs_0 =
     [(''gpt-4o'',
       \<lparr> api_type = ''azure'', api_key = [], base_url = [], api_version = ''2024-06-01'',
         model = ''gpt-4o'', temperature = ''0'', max_tokens = 4000, vision_enabled = False \<rparr>),
      (''gpt-4o-mini'',
       \<lparr> api_type = ''azure'', api_key = [], base_url = [], api_version = ''2024-06-01'',
         model = ''gpt-4o-mini'', temperature = ''0.1'', max_tokens = 4000,
         vision_enabled = False \<rparr>),
      (''gpt-4.1'',
       \<lparr> api_type = ''azure'', api_key = [], base_url = [],
         api_version = ''2025-03-01-preview'', model = ''gpt-4.1'', temperature = ''0.7'',
         max_tokens = 4000, vision_enabled = False \<rparr>),
      (''o4-mini'',
       \<lparr> api_type = ''azure'', api_key = [], base_url = [],
         api_version = ''2025-03-01-preview'', model = ''o4-mini'', temperature = ''0.7'',
         max_tokens = 4000, vision_enabled = False \<rparr>)]"

section \<open>The catalog a set of sources should give\<close>

text \<open>
  Section 9 of the specification describes registration as a fold over the source
  registrations that accumulates the successes and collects the failures. These
  definitions follow those words, to be compared with \<open>get_available_tools\<close>: the sources
  attempted in a given environment, in registration order (the filesystem tool always,
  the SSE and stdio servers when their variable is set and not empty); the tools of those
  that connected; and the catalog made of them.
\<close>

definition attempted_sources :: "('f, 'l, 'v) world \<Rightarrow> env \<Rightarrow> (exn + BrainTool list) list" where
  "attempted_sources w e =
     [filesystem_source w]
     @ (case env_truthy e ''MCP_SSE_URL'' of
          None \<Rightarrow> [] | Some u \<Rightarrow> [mcp_server_source w ''sse'' u])
     @ (case env_truthy e ''MCP_STDIO_COMMAND'' of
          None \<Rightarrow> [] | Some c \<Rightarrow> [mcp_server_source w ''stdio'' c])"

definition connected_tools :: "exn + BrainTool list \<Rightarrow> BrainTool list" where
  "connected_tools src = (case src of Inl x \<Rightarrow> [] | Inr ts \<Rightarrow> ts)"

definition remaining_tools :: "('f, 'l, 'v) world \<Rightarrow> env \<Rightarrow> BrainTool list" where
  "remaining_tools w e = concat (map connected_tools (attempted_sources w e))"

definition union_catalog :: "BrainTool list \<Rightarrow> BrainTool list" where
  "union_catalog ts = foldl add_tool [] ts"

section \<open>General lemmas\<close>

lemma step_args_append: "step_args (xs @ ys) = step_args xs @ step_args ys"
  by (induction xs rule: step_args.induct) simp_all

lemma factory_args_append: "factory_args (xs @ ys) = factory_args xs @ factory_args ys"
  by (induction xs rule: factory_args.induct) simp_all

lemma decimal_int_4000: "decimal_int ''4000'' = Some 4000"
  by (simp add: decimal_int_def digits_only_def)

lemma decimal_float_literals:
  "decimal_float ''0'' = Some ''0''" "decimal_float ''0.1'' = Some ''0.1''"
  "decimal_float ''0.7'' = Some ''0.7''" "decimal_float ''hot'' = None"
  by (simp_all add: decimal_float_def digits_only_def)

lemma module_globals_empty_env:
  "module_globals decimal_float decimal_int env_empty = Inr (preset_configs_0, default_config_0)"
  by (simp add: module_globals_def get_preset_configs_def get_default_config_def
      config_from_env_def getenv_def env_empty_def decimal_int_4000 decimal_float_literals
      preset_configs_0_def default_config_0_def)

lemma setup_calls:
  "step_args (calls (setup_mcp_tools w e g)) = []"
  "factory_args (calls (setup_mcp_tools w e g)) = []"
  by (auto simp: setup_mcp_tools_def Let_def split: option.splits prod.splits)

lemma get_available_tools_calls:
  "calls (get_available_tools w e g) = calls (setup_mcp_tools w e g)"
  by (simp add: get_available_tools_def Let_def split: sum.splits prod.splits)

lemma get_available_tools_args:
  "step_args (calls (get_available_tools w e g)) = []"
  "factory_args (calls (get_available_tools w e g)) = []"
  by (simp_all add: get_available_tools_calls setup_calls)

text \<open>The payload of every \<^verbatim>\<open>brain.step\<close> call of the two handlers, key by key.\<close>

lemma mcp_payload:
  assumes "kw \<in> set (step_args (calls (minion_respond_async w e dc g query pm a k b v m t n
                      route qt ch ut)))"
  shows "kw ''query'' = Some (PyStr query)"
    and "kw ''route'' = Some (if route \<noteq> [] then PyStr route else PyNone)"
    and "kw ''check'' = Some (PyBool ch)"
    and "kw ''query_type'' = (if route = ''python'' \<and> qt \<noteq> [] then Some (PyStr qt) else None)"
  using assms
  by (auto simp: minion_respond_async_def Let_def step_args_append get_available_tools_args
      split: sum.splits if_splits prod.splits)

lemma plain_payload:
  assumes "kw \<in> set (step_args (calls (minion_respond_async_without_mcp w pcs dc query pm
                      a k b v m t n route qt ch)))"
  shows "kw ''query'' = Some (PyStr query)"
    and "kw ''route'' = Some (if route \<noteq> [] then PyStr route else PyNone)"
    and "kw ''check'' = Some (PyBool ch)"
    and "kw ''query_type'' = (if route = ''python'' \<and> qt \<noteq> [] then Some (PyStr qt) else None)"
  using assms
  by (auto simp: minion_respond_async_without_mcp_def Let_def
      split: sum.splits if_splits prod.splits)

text \<open>When the provider factory does not raise, the handlers reach \<^verbatim>\<open>brain.step\<close>
  and call it once.\<close>

lemma mcp_dispatch:
  assumes "\<forall>d \<in> set (factory_args (calls (minion_respond_async w e dc g query pm a k b v m t n
                      route qt ch ut))). \<not> isl (create_llm_provider w d)"
  shows "length (step_args (calls (minion_respond_async w e dc g query pm a k b v m t n
                      route qt ch ut))) = 1"
  using assms
  by (auto simp: minion_respond_async_def Let_def step_args_append factory_args_append
      get_available_tools_args build_brain_with_config_def
      split: sum.splits if_splits prod.splits)

lemma plain_dispatch:
  assumes "\<forall>d \<in> set (factory_args (calls (minion_respond_async_without_mcp w pcs dc query pm
                      a k b v m t n route qt ch))). \<not> isl (create_llm_provider w d)"
  shows "length (step_args (calls (minion_respond_async_without_mcp w pcs dc query pm
                      a k b v m t n route qt ch))) = 1"
  using assms
  by (auto simp: minion_respond_async_without_mcp_def Let_def build_brain_with_config_def
      split: sum.splits if_splits prod.splits)

text \<open>The one dictionary each handler hands to the provider factory.\<close>

lemma mcp_factory_args:
  "factory_args (calls (minion_respond_async w e dc g query pm a k b v m t n route qt ch ut)) =
     [create_custom_llm_config
        (PyStr (case a of None \<Rightarrow> api_type dc | Some x \<Rightarrow> x))
        (PyStr (case k of None \<Rightarrow> api_key dc | Some x \<Rightarrow> x))
        (PyStr (case b of None \<Rightarrow> base_url dc | Some x \<Rightarrow> x))
        (PyStr (case v of None \<Rightarrow> api_version dc | Some x \<Rightarrow> x))
        (PyStr (case m of None \<Rightarrow> model dc | Some x \<Rightarrow> x))
        (PyFloat (case t of None \<Rightarrow> temperature dc | Some x \<Rightarrow> x))
        (PyInt (case n of None \<Rightarrow> max_tokens dc | Some x \<Rightarrow> x))]"
  by (simp add: minion_respond_async_def Let_def factory_args_append get_available_tools_args
      split: sum.splits prod.splits)

lemma plain_factory_args_custom:
  "factory_args (calls (minion_respond_async_without_mcp w pcs dc query ''Custom''
                          a k b v m t n route qt ch)) =
     [create_custom_llm_config (str_val a) (str_val k) (str_val b) (str_val v) (str_val m)
        (float_val t) (int_val n)]"
  by (simp add: minion_respond_async_without_mcp_def Let_def split: sum.splits)

lemma plain_factory_args_preset:
  assumes "pm \<noteq> ''Custom''"
  shows "factory_args (calls (minion_respond_async_without_mcp w pcs dc query pm
                          a k b v m t n route qt ch)) =
     [[''api_type'' \<mapsto> PyStr (api_type (preset_get pcs pm dc)),
       ''api_key'' \<mapsto> PyStr (api_key (preset_get pcs pm dc)),
       ''base_url'' \<mapsto> PyStr (base_url (preset_get pcs pm dc)),
       ''api_version'' \<mapsto> PyStr (api_version (preset_get pcs pm dc)),
       ''model'' \<mapsto> PyStr (model (preset_get pcs pm dc)),
       ''temperature'' \<mapsto> PyFloat (temperature (preset_get pcs pm dc)),
       ''max_tokens'' \<mapsto> PyInt (max_tokens (preset_get pcs pm dc)),
       ''vision_enabled'' \<mapsto> PyBool (vision_enabled (preset_get pcs pm dc))]]"
  using assms
  by (simp add: minion_respond_async_without_mcp_def Let_def split: sum.splits)

section \<open>Route and query type in the payload\<close>

text \<open>
  Claim C8. For every query submitted with the empty-string route, the route value passed
  to the engine is null (the engine selects a strategy itself), not the empty string:
  in both applications, every payload handed to \<^verbatim>\<open>brain.step\<close> by a request whose
  route is \<^verbatim>\<open>""\<close> has the key \<^verbatim>\<open>route\<close> with the value \<^verbatim>\<open>None\<close>.
\<close>

theorem empty_route_is_null:
  "(\<forall>kw \<in> set (step_args (calls (minion_respond_async w e dc g query pm a k b v m t n
                      [] qt ch ut))). kw ''route'' = Some PyNone)
   \<and> (\<forall>kw \<in> set (step_args (calls (minion_respond_async_without_mcp w pcs dc query pm
                      a k b v m t n [] qt ch))). kw ''route'' = Some PyNone)"
proof (intro conjI ballI)
  fix kw
  assume "kw \<in> set (step_args (calls (minion_respond_async w e dc g query pm a k b v m t n
                      [] qt ch ut)))"
  from mcp_payload(2)[OF this] show "kw ''route'' = Some PyNone" by simp
next
  fix kw
  assume "kw \<in> set (step_args (calls (minion_respond_async_without_mcp w pcs dc query pm
                      a k b v m t n [] qt ch)))"
  from plain_payload(2)[OF this] show "kw ''route'' = Some PyNone" by simp
qed

theorem empty_route_is_null_witness:
  "payload_values ''route'' (calls (minion_respond_async (sample_world ''1.0'' ''x'') env_empty
       default_config_0 None ''What is 2+2?'' ''gpt-4o'' None None None None None None None
       [] ''calculate'' False False)) = [Some PyNone]
   \<and> payload_values ''route'' (calls (minion_respond_async_without_mcp (sample_world ''1.0'' ''x'')
       preset_configs_0 default_config_0 ''What is 2+2?'' ''gpt-4o'' None None None None None
       None None [] ''calculate'' False)) = [Some PyNone]"
  using empty_route_is_null [of "sample_world ''1.0'' ''x''" env_empty default_config_0 None
      "''What is 2+2?''" "''gpt-4o''" None None None None None None None "''calculate''" False
      False preset_configs_0]
  by (simp add: payload_values_def minion_respond_async_def
      minion_respond_async_without_mcp_def build_brain_with_config_def sample_world_def
      Let_def)

text \<open>
  Claim C2, as amended. Neither handler checks the route against the list of
  \<open>get_available_routes\<close>. For every non-empty route tag, in the closed set or not, no
  error is raised while the payload is built: the tag is handed to the engine unchanged
  as the payload's route (so it is not replaced by null), and whenever the provider
  factory does not raise, \<^verbatim>\<open>brain.step\<close> is called, once.
\<close>

theorem route_forwarded_unvalidated:
  assumes "route \<noteq> []"
  shows "(\<forall>kw \<in> set (step_args (calls (minion_respond_async w e dc g query pm a k b v m t n
                      route qt ch ut))). kw ''route'' = Some (PyStr route))
       \<and> (\<forall>kw \<in> set (step_args (calls (minion_respond_async_without_mcp w pcs dc query pm
                      a k b v m t n route qt ch))). kw ''route'' = Some (PyStr route))
       \<and> ((\<forall>d \<in> set (factory_args (calls (minion_respond_async w e dc g query pm a k b v m t n
                      route qt ch ut))). \<not> isl (create_llm_provider w d)) \<longrightarrow>
            length (step_args (calls (minion_respond_async w e dc g query pm a k b v m t n
                      route qt ch ut))) = 1)
       \<and> ((\<forall>d \<in> set (factory_args (calls (minion_respond_async_without_mcp w pcs dc query pm
                      a k b v m t n route qt ch))). \<not> isl (create_llm_provider w d)) \<longrightarrow>
            length (step_args (calls (minion_respond_async_without_mcp w pcs dc query pm
                      a k b v m t n route qt ch))) = 1)"
proof (intro conjI ballI impI)
  fix kw
  assume "kw \<in> set (step_args (calls (minion_respond_async w e dc g query pm a k b v m t n
                      route qt ch ut)))"
  from mcp_payload(2)[OF this] assms show "kw ''route'' = Some (PyStr route)" by simp
next
  fix kw
  assume "kw \<in> set (step_args (calls (minion_respond_async_without_mcp w pcs dc query pm
                      a k b v m t n route qt ch)))"
  from plain_payload(2)[OF this] assms show "kw ''route'' = Some (PyStr route)" by simp
next
  assume "\<forall>d \<in> set (factory_args (calls (minion_respond_async w e dc g query pm a k b v m t n
                      route qt ch ut))). \<not> isl (create_llm_provider w d)"
  then show "length (step_args (calls (minion_respond_async w e dc g query pm a k b v m t n
                      route qt ch ut))) = 1" by (rule mcp_dispatch)
next
  assume "\<forall>d \<in> set (factory_args (calls (minion_respond_async_without_mcp w pcs dc query pm
                      a k b v m t n route qt ch))). \<not> isl (create_llm_provider w d)"
  then show "length (step_args (calls (minion_respond_async_without_mcp w pcs dc query pm
                      a k b v m t n route qt ch))) = 1" by (rule plain_dispatch)
qed

theorem route_forwarded_unvalidated_witness:
  "''dcot'' \<noteq> []
   \<and> payload_values ''route'' (calls (minion_respond_async (sample_world ''1.0'' ''x'') env_empty
       default_config_0 None ''What is 2+2?'' ''gpt-4o'' None None None None None None None
       ''dcot'' ''calculate'' False False)) = [Some (PyStr ''dcot'')]
   \<and> payload_values ''route'' (calls (minion_respond_async_without_mcp (sample_world ''1.0'' ''x'')
       preset_configs_0 default_config_0 ''What is 2+2?'' ''gpt-4o'' None None None None None
       None None ''dcot'' ''calculate'' False)) = [Some (PyStr ''dcot'')]"
  using route_forwarded_unvalidated [of "''dcot''" "sample_world ''1.0'' ''x''" env_empty
      default_config_0 None "''What is 2+2?''" "''gpt-4o''" None None None None None None None
      "''calculate''" False False preset_configs_0]
  by (simp add: payload_values_def minion_respond_async_def
      minion_respond_async_without_mcp_def build_brain_with_config_def sample_world_def
      Let_def)

text \<open>
  The claim as stated fails: the tag \<^verbatim>\<open>foo\<close> is not a route of \<open>get_available_routes\<close>,
  and a request with it raises nothing, reaches the engine with \<^verbatim>\<open>route="foo"\<close> and
  returns the engine's observation.
\<close>

theorem unknown_route_counterexample:
  "''foo'' \<notin> set get_available_routes
   \<and> returned (minion_respond_async (sample_world ''1.0'' ''x'') env_empty default_config_0
       None ''What is 2+2?'' ''gpt-4o'' None None None None None None None
       ''foo'' ''calculate'' False False) = Inr ''4''
   \<and> payload_values ''route'' (calls (minion_respond_async (sample_world ''1.0'' ''x'') env_empty
       default_config_0 None ''What is 2+2?'' ''gpt-4o'' None None None None None None None
       ''foo'' ''calculate'' False False)) = [Some (PyStr ''foo'')]
   \<and> returned (minion_respond_async_without_mcp (sample_world ''1.0'' ''x'') preset_configs_0
       default_config_0 ''What is 2+2?'' ''gpt-4o'' None None None None None None None
       ''foo'' ''calculate'' False) = Inr ''4''
   \<and> payload_values ''route'' (calls (minion_respond_async_without_mcp (sample_world ''1.0'' ''x'')
       preset_configs_0 default_config_0 ''What is 2+2?'' ''gpt-4o'' None None None None None
       None None ''foo'' ''calculate'' False)) = [Some (PyStr ''foo'')]"
  by (simp add: get_available_routes_def payload_values_def minion_respond_async_def
      minion_respond_async_without_mcp_def build_brain_with_config_def sample_world_def
      unpack_obs_def Let_def)

text \<open>
  Claim C3, as amended. The key \<^verbatim>\<open>query_type\<close> is in the payload passed to
  \<^verbatim>\<open>brain.step\<close> if and only if the route is \<^verbatim>\<open>"python"\<close> and the supplied query type
  is not empty (the guard is \<^verbatim>\<open>route == "python" and query_type\<close>); it then carries the
  supplied value. For every other route the supplied value is dropped.
\<close>

theorem query_type_iff_python_and_nonempty:
  "(\<forall>kw \<in> set (step_args (calls (minion_respond_async w e dc g query pm a k b v m t n
                      route qt ch ut))).
       kw ''query_type'' = (if route = ''python'' \<and> qt \<noteq> [] then Some (PyStr qt) else None))
   \<and> (\<forall>kw \<in> set (step_args (calls (minion_respond_async_without_mcp w pcs dc query pm
                      a k b v m t n route qt ch))).
       kw ''query_type'' = (if route = ''python'' \<and> qt \<noteq> [] then Some (PyStr qt) else None))"
proof (intro conjI ballI)
  fix kw
  assume "kw \<in> set (step_args (calls (minion_respond_async w e dc g query pm a k b v m t n
                      route qt ch ut)))"
  then show "kw ''query_type'' = (if route = ''python'' \<and> qt \<noteq> [] then Some (PyStr qt) else None)"
    by (rule mcp_payload(4))
next
  fix kw
  assume "kw \<in> set (step_args (calls (minion_respond_async_without_mcp w pcs dc query pm
                      a k b v m t n route qt ch)))"
  then show "kw ''query_type'' = (if route = ''python'' \<and> qt \<noteq> [] then Some (PyStr qt) else None)"
    by (rule plain_payload(4))
qed

theorem query_type_iff_python_and_nonempty_witness:
  "payload_values ''query_type'' (calls (minion_respond_async (sample_world ''1.0'' ''x'')
       env_empty default_config_0 None ''Sort a list'' ''gpt-4o'' None None None None None None
       None ''python'' ''code_solution'' False False)) = [Some (PyStr ''code_solution'')]
   \<and> payload_values ''query_type'' (calls (minion_respond_async_without_mcp
       (sample_world ''1.0'' ''x'') preset_configs_0 default_config_0 ''Sort a list'' ''gpt-4o''
       None None None None None None None ''raw'' ''code_solution'' False)) = [None]"
  using query_type_iff_python_and_nonempty [of "sample_world ''1.0'' ''x''" env_empty
      default_config_0 None "''Sort a list''" "''gpt-4o''" None None None None None None None
      "''python''" "''code_solution''" False False preset_configs_0]
  by (simp add: payload_values_def minion_respond_async_def
      minion_respond_async_without_mcp_def build_brain_with_config_def sample_world_def
      Let_def)

text \<open>
  The claim as stated fails from right to left: with the route \<^verbatim>\<open>"python"\<close> and an empty
  query type, the payload has no key \<^verbatim>\<open>query_type\<close>.
\<close>

theorem python_route_without_query_type_counterexample:
  "payload_values ''query_type'' (calls (minion_respond_async (sample_world ''1.0'' ''x'')
       env_empty default_config_0 None ''Sort a list'' ''gpt-4o'' None None None None None None
       None ''python'' [] False False)) = [None]
   \<and> payload_values ''route'' (calls (minion_respond_async (sample_world ''1.0'' ''x'')
       env_empty default_config_0 None ''Sort a list'' ''gpt-4o'' None None None None None None
       None ''python'' [] False False)) = [Some (PyStr ''python'')]
   \<and> payload_values ''query_type'' (calls (minion_respond_async_without_mcp
       (sample_world ''1.0'' ''x'') preset_configs_0 default_config_0 ''Sort a list'' ''gpt-4o''
       None None None None None None None ''python'' [] False)) = [None]"
  by (simp add: payload_values_def minion_respond_async_def
      minion_respond_async_without_mcp_def build_brain_with_config_def sample_world_def
      Let_def)

text \<open>What a handler returns once the engine has answered.\<close>

lemma mcp_returned:
  assumes "factory_args (calls (minion_respond_async w e dc g query pm a k b v m t n
                      route qt ch ut)) = [d]"
    and "create_llm_provider w d = Inr l"
    and "step_args (calls (minion_respond_async w e dc g query pm a k b v m t n
                      route qt ch ut)) = [kw]"
  shows "returned (minion_respond_async w e dc g query pm a k b v m t n route qt ch ut) =
           (case brain_step w l kw of Inl x \<Rightarrow> Inl x | Inr res \<Rightarrow> unpack_obs res)"
  using assms
  by (auto simp: minion_respond_async_def Let_def step_args_append factory_args_append
      get_available_tools_args build_brain_with_config_def
      split: sum.splits if_splits prod.splits)

lemma plain_returned:
  assumes "factory_args (calls (minion_respond_async_without_mcp w pcs dc query pm
                      a k b v m t n route qt ch)) = [d]"
    and "create_llm_provider w d = Inr l"
    and "step_args (calls (minion_respond_async_without_mcp w pcs dc query pm
                      a k b v m t n route qt ch)) = [kw]"
  shows "returned (minion_respond_async_without_mcp w pcs dc query pm a k b v m t n route qt ch) =
           (case brain_step w l kw of Inl x \<Rightarrow> Inl x | Inr res \<Rightarrow> unpack_obs res)"
  using assms
  by (auto simp: minion_respond_async_without_mcp_def Let_def build_brain_with_config_def
      split: sum.splits if_splits prod.splits)

lemma unpack_obs_short: "length res < 2 \<Longrightarrow> unpack_obs res = Inl ValueError"
  by (auto simp: unpack_obs_def split: list.splits)

section \<open>What the handlers return\<close>

text \<open>
  Claim C6, as amended. Both handlers end with
  \<^verbatim>\<open>obs, score, *_ = await brain.step(**kwargs); return obs\<close>. When the engine reports
  \<open>(observation, score, ...)\<close>, the handler returns the observation alone: the score and
  any trailing fields are dropped, not passed on. An engine result with fewer than two
  components raises \<^verbatim>\<open>ValueError\<close>.
\<close>

theorem returns_observation_only:
  "(factory_args (calls (minion_respond_async w e dc g query pm a k b v m t n
                      route qt ch ut)) = [d]
      \<and> create_llm_provider w d = Inr l
      \<and> step_args (calls (minion_respond_async w e dc g query pm a k b v m t n
                      route qt ch ut)) = [kw]
    \<longrightarrow> (brain_step w l kw = Inr (obs # score # rest) \<longrightarrow>
           returned (minion_respond_async w e dc g query pm a k b v m t n route qt ch ut)
             = Inr obs)
      \<and> (brain_step w l kw = Inr res \<and> length res < 2 \<longrightarrow>
           returned (minion_respond_async w e dc g query pm a k b v m t n route qt ch ut)
             = Inl ValueError))
   \<and> (factory_args (calls (minion_respond_async_without_mcp w pcs dc query pm
                      a k b v m t n route qt ch)) = [d']
      \<and> create_llm_provider w d' = Inr l'
      \<and> step_args (calls (minion_respond_async_without_mcp w pcs dc query pm
                      a k b v m t n route qt ch)) = [kw']
    \<longrightarrow> (brain_step w l' kw' = Inr (obs # score # rest) \<longrightarrow>
           returned (minion_respond_async_without_mcp w pcs dc query pm a k b v m t n route qt ch)
             = Inr obs)
      \<and> (brain_step w l' kw' = Inr res \<and> length res < 2 \<longrightarrow>
           returned (minion_respond_async_without_mcp w pcs dc query pm a k b v m t n route qt ch)
             = Inl ValueError))"
proof (intro conjI impI)
  assume h: "factory_args (calls (minion_respond_async w e dc g query pm a k b v m t n
                      route qt ch ut)) = [d]
      \<and> create_llm_provider w d = Inr l
      \<and> step_args (calls (minion_respond_async w e dc g query pm a k b v m t n
                      route qt ch ut)) = [kw]"
  have r: "returned (minion_respond_async w e dc g query pm a k b v m t n route qt ch ut) =
           (case brain_step w l kw of Inl x \<Rightarrow> Inl x | Inr res \<Rightarrow> unpack_obs res)"
    by (rule mcp_returned [where d = d and l = l and kw = kw]) (simp_all add: h)
  {
    assume "brain_step w l kw = Inr (obs # score # rest)"
    with r show "returned (minion_respond_async w e dc g query pm a k b v m t n route qt ch ut)
             = Inr obs"
      by (simp add: unpack_obs_def)
  }
  {
    assume "brain_step w l kw = Inr res \<and> length res < 2"
    with r show "returned (minion_respond_async w e dc g query pm a k b v m t n route qt ch ut)
             = Inl ValueError"
      by (simp add: unpack_obs_short)
  }
next
  assume h: "factory_args (calls (minion_respond_async_without_mcp w pcs dc query pm
                      a k b v m t n route qt ch)) = [d']
      \<and> create_llm_provider w d' = Inr l'
      \<and> step_args (calls (minion_respond_async_without_mcp w pcs dc query pm
                      a k b v m t n route qt ch)) = [kw']"
  have r: "returned (minion_respond_async_without_mcp w pcs dc query pm a k b v m t n
                   route qt ch) =
           (case brain_step w l' kw' of Inl x \<Rightarrow> Inl x | Inr res \<Rightarrow> unpack_obs res)"
    by (rule plain_returned [where d = d' and l = l' and kw = kw']) (simp_all add: h)
  {
    assume "brain_step w l' kw' = Inr (obs # score # rest)"
    with r show "returned (minion_respond_async_without_mcp w pcs dc query pm a k b v m t n
                   route qt ch) = Inr obs"
      by (simp add: unpack_obs_def)
  }
  {
    assume "brain_step w l' kw' = Inr res \<and> length res < 2"
    with r show "returned (minion_respond_async_without_mcp w pcs dc query pm a k b v m t n
                   route qt ch) = Inl ValueError"
      by (simp add: unpack_obs_short)
  }
qed

theorem returns_observation_only_witness:
  "returned (minion_respond_async (sample_world ''1.0'' ''x'') env_empty default_config_0 None
       ''What is 2+2?'' ''gpt-4o'' None None None None None None None [] ''calculate'' False
       False) = Inr ''4''
   \<and> returned (minion_respond_async_without_mcp (sample_world ''1.0'' ''x'') preset_configs_0
       default_config_0 ''What is 2+2?'' ''Custom'' (Some ''openai'') (Some ''sk'') (Some [])
       (Some []) (Some ''gpt-4.1'') (Some ''0.2'') (Some 1000) [] ''calculate'' False)
       = Inr ''4''"
  using returns_observation_only [where w = "sample_world ''1.0'' ''x''" and e = env_empty
      and dc = default_config_0 and g = None and query = "''What is 2+2?''"
      and pm = "''gpt-4o''" and a = None and k = None and b = None and v = None and m = None
      and t = None and n = None and route = "[]" and qt = "''calculate''" and ch = False
      and ut = False and l = "()" and obs = "''4''" and score = "''1.0''" and rest = "[''x'']"
      and d = "create_custom_llm_config (PyStr ''azure'') (PyStr []) (PyStr [])
                 (PyStr ''2024-06-01'') (PyStr ''gpt-4o'') (PyFloat ''0.7'') (PyInt 4000)"
      and kw = "[''query'' \<mapsto> PyStr ''What is 2+2?'', ''route'' \<mapsto> PyNone,
                 ''check'' \<mapsto> PyBool False]"]
    returns_observation_only [where w = "sample_world ''1.0'' ''x''" and pcs = preset_configs_0
      and dc = default_config_0 and query = "''What is 2+2?''"
      and pm = "''Custom''" and a = "Some ''openai''" and k = "Some ''sk''" and b = "Some []"
      and v = "Some []" and m = "Some ''gpt-4.1''" and t = "Some ''0.2''" and n = "Some 1000"
      and route = "[]" and qt = "''calculate''" and ch = False
      and l' = "()" and obs = "''4''" and score = "''1.0''" and rest = "[''x'']"
      and d' = "create_custom_llm_config (PyStr ''openai'') (PyStr ''sk'') (PyStr [])
                 (PyStr []) (PyStr ''gpt-4.1'') (PyFloat ''0.2'') (PyInt 1000)"
      and kw' = "[''query'' \<mapsto> PyStr ''What is 2+2?'', ''route'' \<mapsto> PyNone,
                 ''check'' \<mapsto> PyBool False]"]
  by (simp add: minion_respond_async_def minion_respond_async_without_mcp_def
      build_brain_with_config_def sample_world_def default_config_0_def str_val_def
      float_val_def int_val_def Let_def)

text \<open>
  The claim as stated fails: two engines that report the same observation with different
  scores and different trailing fields give the same return value, so the value returned
  carries neither the score nor the trailing fields.
\<close>

theorem score_and_rest_dropped_counterexample:
  "brain_step (sample_world ''0.5'' ''trace-a'') () Map.empty = Inr [''4'', ''0.5'', ''trace-a'']
   \<and> brain_step (sample_world ''0.9'' ''trace-b'') () Map.empty = Inr [''4'', ''0.9'', ''trace-b'']
   \<and> returned (minion_respond_async (sample_world ''0.5'' ''trace-a'') env_empty
         default_config_0 None ''What is 2+2?'' ''gpt-4o'' None None None None None None None
         [] ''calculate'' False False) = Inr ''4''
   \<and> returned (minion_respond_async (sample_world ''0.9'' ''trace-b'') env_empty
         default_config_0 None ''What is 2+2?'' ''gpt-4o'' None None None None None None None
         [] ''calculate'' False False) = Inr ''4''
   \<and> returned (minion_respond_async_without_mcp (sample_world ''0.5'' ''trace-a'')
         preset_configs_0 default_config_0 ''What is 2+2?'' ''gpt-4o'' None None None None None
         None None [] ''calculate'' False) = Inr ''4''
   \<and> returned (minion_respond_async_without_mcp (sample_world ''0.9'' ''trace-b'')
         preset_configs_0 default_config_0 ''What is 2+2?'' ''gpt-4o'' None None None None None
         None None [] ''calculate'' False) = Inr ''4''"
  by (simp add: minion_respond_async_def minion_respond_async_without_mcp_def
      build_brain_with_config_def sample_world_def unpack_obs_def Let_def)

section \<open>Configuration resolution\<close>

text \<open>
  Claim C1, as amended. The two handlers resolve the seven configuration fields
  differently, and neither layers override over preset over default.

  In \<^verbatim>\<open>app_with_mcp.py\<close> each field handed to the provider factory is the override
  when one is supplied (not \<^verbatim>\<open>None\<close>) and the global default's value otherwise; the
  preset is not consulted.

  In \<^verbatim>\<open>app_without_mcp.py\<close>, when the preset identifier is not \<^verbatim>\<open>"Custom"\<close> each field
  is the value of the preset of that name if there is one and of the global default
  otherwise, whatever the overrides are; when it is \<^verbatim>\<open>"Custom"\<close> each field is the
  override as supplied (\<^verbatim>\<open>None\<close> when it is absent).
\<close>

theorem config_resolution_by_variant:
  "config_values ''api_type'' (calls (minion_respond_async w e dc g query pm a k b v m t n
       route qt ch ut)) = [Some (PyStr (case a of None \<Rightarrow> api_type dc | Some x \<Rightarrow> x))]
   \<and> config_values ''api_key'' (calls (minion_respond_async w e dc g query pm a k b v m t n
       route qt ch ut)) = [Some (PyStr (case k of None \<Rightarrow> api_key dc | Some x \<Rightarrow> x))]
   \<and> config_values ''base_url'' (calls (minion_respond_async w e dc g query pm a k b v m t n
       route qt ch ut)) = [Some (PyStr (case b of None \<Rightarrow> base_url dc | Some x \<Rightarrow> x))]
   \<and> config_values ''api_version'' (calls (minion_respond_async w e dc g query pm a k b v m t n
       route qt ch ut)) = [Some (PyStr (case v of None \<Rightarrow> api_version dc | Some x \<Rightarrow> x))]
   \<and> config_values ''model'' (calls (minion_respond_async w e dc g query pm a k b v m t n
       route qt ch ut)) = [Some (PyStr (case m of None \<Rightarrow> model dc | Some x \<Rightarrow> x))]
   \<and> config_values ''temperature'' (calls (minion_respond_async w e dc g query pm a k b v m t n
       route qt ch ut)) = [Some (PyFloat (case t of None \<Rightarrow> temperature dc | Some x \<Rightarrow> x))]
   \<and> config_values ''max_tokens'' (calls (minion_respond_async w e dc g query pm a k b v m t n
       route qt ch ut)) = [Some (PyInt (case n of None \<Rightarrow> max_tokens dc | Some x \<Rightarrow> x))]
   \<and> config_values ''api_type'' (calls (minion_respond_async_without_mcp w pcs dc query pm
       a k b v m t n route qt ch))
       = [Some (if pm \<noteq> ''Custom'' then PyStr (api_type (preset_get pcs pm dc)) else str_val a)]
   \<and> config_values ''api_key'' (calls (minion_respond_async_without_mcp w pcs dc query pm
       a k b v m t n route qt ch))
       = [Some (if pm \<noteq> ''Custom'' then PyStr (api_key (preset_get pcs pm dc)) else str_val k)]
   \<and> config_values ''base_url'' (calls (minion_respond_async_without_mcp w pcs dc query pm
       a k b v m t n route qt ch))
       = [Some (if pm \<noteq> ''Custom'' then PyStr (base_url (preset_get pcs pm dc)) else str_val b)]
   \<and> config_values ''api_version'' (calls (minion_respond_async_without_mcp w pcs dc query pm
       a k b v m t n route qt ch))
       = [Some (if pm \<noteq> ''Custom'' then PyStr (api_version (preset_get pcs pm dc))
                else str_val v)]
   \<and> config_values ''model'' (calls (minion_respond_async_without_mcp w pcs dc query pm
       a k b v m t n route qt ch))
       = [Some (if pm \<noteq> ''Custom'' then PyStr (model (preset_get pcs pm dc)) else str_val m)]
   \<and> config_values ''temperature'' (calls (minion_respond_async_without_mcp w pcs dc query pm
       a k b v m t n route qt ch))
       = [Some (if pm \<noteq> ''Custom'' then PyFloat (temperature (preset_get pcs pm dc))
                else float_val t)]
   \<and> config_values ''max_tokens'' (calls (minion_respond_async_without_mcp w pcs dc query pm
       a k b v m t n route qt ch))
       = [Some (if pm \<noteq> ''Custom'' then PyInt (max_tokens (preset_get pcs pm dc))
                else int_val n)]"
proof -
  have plain: "config_values key (calls (minion_respond_async_without_mcp w pcs dc query pm
       a k b v m t n route qt ch)) =
     (if pm \<noteq> ''Custom''
      then [[''api_type'' \<mapsto> PyStr (api_type (preset_get pcs pm dc)),
             ''api_key'' \<mapsto> PyStr (api_key (preset_get pcs pm dc)),
             ''base_url'' \<mapsto> PyStr (base_url (preset_get pcs pm dc)),
             ''api_version'' \<mapsto> PyStr (api_version (preset_get pcs pm dc)),
             ''model'' \<mapsto> PyStr (model (preset_get pcs pm dc)),
             ''temperature'' \<mapsto> PyFloat (temperature (preset_get pcs pm dc)),
             ''max_tokens'' \<mapsto> PyInt (max_tokens (preset_get pcs pm dc)),
             ''vision_enabled'' \<mapsto> PyBool (vision_enabled (preset_get pcs pm dc))] key]
      else [create_custom_llm_config (str_val a) (str_val k) (str_val b) (str_val v)
              (str_val m) (float_val t) (int_val n) key])" for key
    using plain_factory_args_custom [of w pcs dc query a k b v m t n route qt ch]
      plain_factory_args_preset [of pm w pcs dc query a k b v m t n route qt ch]
    by (cases "pm = ''Custom''") (simp_all add: config_values_def)
  have mcp: "config_values key (calls (minion_respond_async w e dc g query pm a k b v m t n
       route qt ch ut)) =
     [create_custom_llm_config
        (PyStr (case a of None \<Rightarrow> api_type dc | Some x \<Rightarrow> x))
        (PyStr (case k of None \<Rightarrow> api_key dc | Some x \<Rightarrow> x))
        (PyStr (case b of None \<Rightarrow> base_url dc | Some x \<Rightarrow> x))
        (PyStr (case v of None \<Rightarrow> api_version dc | Some x \<Rightarrow> x))
        (PyStr (case m of None \<Rightarrow> model dc | Some x \<Rightarrow> x))
        (PyFloat (case t of None \<Rightarrow> temperature dc | Some x \<Rightarrow> x))
        (PyInt (case n of None \<Rightarrow> max_tokens dc | Some x \<Rightarrow> x)) key]" for key
    by (simp add: config_values_def mcp_factory_args)
  show ?thesis
    by (simp add: plain mcp create_custom_llm_config_def)
qed

text \<open>
  The claim as stated fails in both applications. A process started in the empty
  environment has the globals \<open>preset_configs_0\<close> and \<open>default_config_0\<close>. With MCP, the
  known preset \<^verbatim>\<open>gpt-4o-mini\<close> and no override give the model of the global default,
  \<^verbatim>\<open>gpt-4o\<close>, not the preset's \<^verbatim>\<open>gpt-4o-mini\<close>. Without MCP, the preset \<^verbatim>\<open>gpt-4o\<close> and
  an explicit override of the model give the preset's model, not the override.
\<close>

theorem layered_resolution_counterexample:
  "module_globals decimal_float decimal_int env_empty = Inr (preset_configs_0, default_config_0)
   \<and> map_of preset_configs_0 ''gpt-4o-mini'' \<noteq> None
   \<and> model (preset_get preset_configs_0 ''gpt-4o-mini'' default_config_0) = ''gpt-4o-mini''
   \<and> config_values ''model'' (calls (minion_respond_async (sample_world ''1.0'' ''x'') env_empty
         default_config_0 None ''What is 2+2?'' ''gpt-4o-mini'' None None None None None None
         None [] ''calculate'' False False)) = [Some (PyStr ''gpt-4o'')]
   \<and> config_values ''model'' (calls (minion_respond_async_without_mcp
         (sample_world ''1.0'' ''x'') preset_configs_0 default_config_0 ''What is 2+2?''
         ''gpt-4o'' None None None None (Some ''my-model'') None None [] ''calculate'' False))
       = [Some (PyStr ''gpt-4o'')]"
  by (simp add: module_globals_empty_env config_values_def mcp_factory_args
      plain_factory_args_preset create_custom_llm_config_def preset_get_def
      preset_configs_0_def default_config_0_def)

section \<open>The preset argument of the MCP application\<close>

text \<open>
  Claim C10. In \<^verbatim>\<open>app_with_mcp.py\<close> the argument \<^verbatim>\<open>preset_model\<close> has no effect on the
  executed request: two calls of \<^verbatim>\<open>minion_respond_async\<close> that differ only in
  \<^verbatim>\<open>preset_model\<close> hand the same configuration dictionary to the provider factory and
  the same payload to \<^verbatim>\<open>brain.step\<close>; indeed they make the same calls, return the same
  value and leave the same client. (Only the lines printed differ.)
\<close>

theorem preset_model_has_no_effect:
  "factory_args (calls (minion_respond_async w e dc g query pm1 a k b v m t n route qt ch ut))
     = factory_args (calls (minion_respond_async w e dc g query pm2 a k b v m t n route qt ch ut))
   \<and> step_args (calls (minion_respond_async w e dc g query pm1 a k b v m t n route qt ch ut))
     = step_args (calls (minion_respond_async w e dc g query pm2 a k b v m t n route qt ch ut))
   \<and> calls (minion_respond_async w e dc g query pm1 a k b v m t n route qt ch ut)
     = calls (minion_respond_async w e dc g query pm2 a k b v m t n route qt ch ut)
   \<and> returned (minion_respond_async w e dc g query pm1 a k b v m t n route qt ch ut)
     = returned (minion_respond_async w e dc g query pm2 a k b v m t n route qt ch ut)
   \<and> mcp_client (minion_respond_async w e dc g query pm1 a k b v m t n route qt ch ut)
     = mcp_client (minion_respond_async w e dc g query pm2 a k b v m t n route qt ch ut)"
proof -
  have c: "calls (minion_respond_async w e dc g query pm1 a k b v m t n route qt ch ut)
     = calls (minion_respond_async w e dc g query pm2 a k b v m t n route qt ch ut)"
    by (simp add: minion_respond_async_def Let_def split: sum.splits prod.splits)
  have r: "returned (minion_respond_async w e dc g query pm1 a k b v m t n route qt ch ut)
     = returned (minion_respond_async w e dc g query pm2 a k b v m t n route qt ch ut)"
    by (simp add: minion_respond_async_def Let_def split: sum.splits prod.splits)
  have s: "mcp_client (minion_respond_async w e dc g query pm1 a k b v m t n route qt ch ut)
     = mcp_client (minion_respond_async w e dc g query pm2 a k b v m t n route qt ch ut)"
    by (simp add: minion_respond_async_def Let_def split: sum.splits prod.splits)
  from c r s show ?thesis by simp
qed

section \<open>Numbers read from the environment\<close>

lemma config_from_env_Inl:
  "config_from_env float_of int_of e prefix dv dm dt = Inl x \<Longrightarrow> x = ValueError"
  by (simp add: config_from_env_def split: option.splits)

lemma config_from_env_bad:
  assumes "(e (prefix @ ''_TEMPERATURE'') = Some s \<and> float_of s = None)
           \<or> (e (prefix @ ''_MAX_TOKENS'') = Some s \<and> int_of s = None)"
  shows "config_from_env float_of int_of e prefix dv dm dt = Inl ValueError"
  using assms by (auto simp: config_from_env_def getenv_def split: option.splits)

lemma config_from_env_numbers:
  assumes "config_from_env float_of int_of e prefix dv dm dt = Inr c"
  shows "float_of (case e (prefix @ ''_TEMPERATURE'') of None \<Rightarrow> dt | Some s \<Rightarrow> s)
           = Some (temperature c)"
    and "int_of (case e (prefix @ ''_MAX_TOKENS'') of None \<Rightarrow> ''4000'' | Some s \<Rightarrow> s)
           = Some (max_tokens c)"
  using assms by (auto simp: config_from_env_def getenv_def split: option.splits)

lemma module_globals_bad:
  assumes "prefix \<in> set [''GPT_4O'', ''GPT_4O_MINI'', ''GPT_41'', ''O4_MINI'', ''DEFAULT'']"
    and "\<And>dv dm dt. config_from_env float_of int_of e prefix dv dm dt = Inl ValueError"
  shows "module_globals float_of int_of e = Inl ValueError"
proof -
  have "get_preset_configs float_of int_of e = Inl ValueError
        \<or> (\<exists>ps. get_preset_configs float_of int_of e = Inr ps \<and> prefix = ''DEFAULT'')"
    using assms
    by (auto simp: get_preset_configs_def split: sum.splits dest: config_from_env_Inl)
  then show ?thesis
    using assms(2) by (auto simp: module_globals_def get_default_config_def)
qed

text \<open>
  Claim C4, as amended. Numbers are checked in one place only, where they are read
  from the environment. Whenever one of the ten variables \<^verbatim>\<open>P_TEMPERATURE\<close>,
  \<^verbatim>\<open>P_MAX_TOKENS\<close> (\<^verbatim>\<open>P\<close> one of the four preset prefixes or \<^verbatim>\<open>DEFAULT\<close>) is set to a
  string that \<^verbatim>\<open>float\<close>, respectively \<^verbatim>\<open>int\<close>, rejects, loading the configuration raises
  (Python's \<^verbatim>\<open>ValueError\<close>) while the module is imported: the process serves no request
  and calls no collaborator. A configuration that does load holds the parsed value of
  the variable when it is set and the parsed literal default only when it is absent.

  The temperature and the maximal number of tokens of a request are not checked by
  either handler: the provider factory is called, and receives the value as it was
  supplied. With MCP an absent value (\<^verbatim>\<open>None\<close>) is replaced by the global default's;
  without MCP the preset's value (the global default's for an unknown preset) is used
  unless the preset is \<^verbatim>\<open>"Custom"\<close>, and then the value is handed on as supplied.
\<close>

theorem numbers_checked_only_at_import:
  "(prefix \<in> set [''GPT_4O'', ''GPT_4O_MINI'', ''GPT_41'', ''O4_MINI'', ''DEFAULT'']
      \<and> ((e (prefix @ ''_TEMPERATURE'') = Some s \<and> float_of s = None)
          \<or> (e (prefix @ ''_MAX_TOKENS'') = Some s \<and> int_of s = None))
    \<longrightarrow> module_globals float_of int_of e = Inl ValueError
      \<and> returned (app_with_mcp float_of int_of w e query pm a k b v m t n route qt ch ut)
          = Inl ValueError
      \<and> calls (app_with_mcp float_of int_of w e query pm a k b v m t n route qt ch ut) = []
      \<and> returned (app_without_mcp float_of int_of w e query pm a k b v m t n route qt ch)
          = Inl ValueError
      \<and> calls (app_without_mcp float_of int_of w e query pm a k b v m t n route qt ch) = [])
   \<and> (config_from_env float_of int_of e prefix dv dm dt = Inr c
    \<longrightarrow> float_of (case e (prefix @ ''_TEMPERATURE'') of None \<Rightarrow> dt | Some s \<Rightarrow> s)
          = Some (temperature c)
      \<and> int_of (case e (prefix @ ''_MAX_TOKENS'') of None \<Rightarrow> ''4000'' | Some s \<Rightarrow> s)
          = Some (max_tokens c))
   \<and> (get_default_config float_of int_of e = Inr c'
    \<longrightarrow> float_of (case e ''DEFAULT_TEMPERATURE'' of None \<Rightarrow> ''0.7'' | Some s \<Rightarrow> s)
          = Some (temperature c')
      \<and> int_of (case e ''DEFAULT_MAX_TOKENS'' of None \<Rightarrow> ''4000'' | Some s \<Rightarrow> s)
          = Some (max_tokens c'))
   \<and> config_values ''temperature'' (calls (minion_respond_async w e dc g query pm a k b v m t n
         route qt ch ut))
       = [Some (PyFloat (case t of None \<Rightarrow> temperature dc | Some x \<Rightarrow> x))]
   \<and> config_values ''max_tokens'' (calls (minion_respond_async w e dc g query pm a k b v m t n
         route qt ch ut))
       = [Some (PyInt (case n of None \<Rightarrow> max_tokens dc | Some x \<Rightarrow> x))]
   \<and> config_values ''temperature'' (calls (minion_respond_async_without_mcp w pcs dc query pm
         a k b v m t n route qt ch))
       = [Some (if pm \<noteq> ''Custom'' then PyFloat (temperature (preset_get pcs pm dc))
                else float_val t)]
   \<and> config_values ''max_tokens'' (calls (minion_respond_async_without_mcp w pcs dc query pm
         a k b v m t n route qt ch))
       = [Some (if pm \<noteq> ''Custom'' then PyInt (max_tokens (preset_get pcs pm dc))
                else int_val n)]"
proof (intro conjI impI)
  assume h: "prefix \<in> set [''GPT_4O'', ''GPT_4O_MINI'', ''GPT_41'', ''O4_MINI'', ''DEFAULT'']
      \<and> ((e (prefix @ ''_TEMPERATURE'') = Some s \<and> float_of s = None)
          \<or> (e (prefix @ ''_MAX_TOKENS'') = Some s \<and> int_of s = None))"
  from h have mem: "prefix \<in> set [''GPT_4O'', ''GPT_4O_MINI'', ''GPT_41'', ''O4_MINI'', ''DEFAULT'']"
    by (rule conjunct1)
  from h have nonnum: "(e (prefix @ ''_TEMPERATURE'') = Some s \<and> float_of s = None)
          \<or> (e (prefix @ ''_MAX_TOKENS'') = Some s \<and> int_of s = None)"
    by (rule conjunct2)
  have bad: "config_from_env float_of int_of e prefix dv dm dt = Inl ValueError" for dv dm dt
    using nonnum by (rule config_from_env_bad)
  from mem bad show g: "module_globals float_of int_of e = Inl ValueError"
    by (rule module_globals_bad)
  from g show "returned (app_with_mcp float_of int_of w e query pm a k b v m t n route qt ch ut)
          = Inl ValueError"
    by (simp add: app_with_mcp_def)
  from g show "calls (app_with_mcp float_of int_of w e query pm a k b v m t n route qt ch ut) = []"
    by (simp add: app_with_mcp_def)
  from g show "returned (app_without_mcp float_of int_of w e query pm a k b v m t n route qt ch)
          = Inl ValueError"
    by (simp add: app_without_mcp_def)
  from g show "calls (app_without_mcp float_of int_of w e query pm a k b v m t n route qt ch) = []"
    by (simp add: app_without_mcp_def)
next
  assume "config_from_env float_of int_of e prefix dv dm dt = Inr c"
  then show "float_of (case e (prefix @ ''_TEMPERATURE'') of None \<Rightarrow> dt | Some s \<Rightarrow> s)
          = Some (temperature c)"
    by (rule config_from_env_numbers(1))
next
  assume "config_from_env float_of int_of e prefix dv dm dt = Inr c"
  then show "int_of (case e (prefix @ ''_MAX_TOKENS'') of None \<Rightarrow> ''4000'' | Some s \<Rightarrow> s)
          = Some (max_tokens c)"
    by (rule config_from_env_numbers(2))
next
  assume "get_default_config float_of int_of e = Inr c'"
  then show "float_of (case e ''DEFAULT_TEMPERATURE'' of None \<Rightarrow> ''0.7'' | Some s \<Rightarrow> s)
          = Some (temperature c')"
    using config_from_env_numbers(1) [of float_of int_of e "''DEFAULT''"]
    by (simp add: get_default_config_def)
next
  assume "get_default_config float_of int_of e = Inr c'"
  then show "int_of (case e ''DEFAULT_MAX_TOKENS'' of None \<Rightarrow> ''4000'' | Some s \<Rightarrow> s)
          = Some (max_tokens c')"
    using config_from_env_numbers(2) [of float_of int_of e "''DEFAULT''"]
    by (simp add: get_default_config_def)
next
  show "config_values ''temperature'' (calls (minion_respond_async w e dc g query pm a k b v m t n
         route qt ch ut))
       = [Some (PyFloat (case t of None \<Rightarrow> temperature dc | Some x \<Rightarrow> x))]"
    by (simp add: config_values_def mcp_factory_args create_custom_llm_config_def)
next
  show "config_values ''max_tokens'' (calls (minion_respond_async w e dc g query pm a k b v m t n
         route qt ch ut))
       = [Some (PyInt (case n of None \<Rightarrow> max_tokens dc | Some x \<Rightarrow> x))]"
    by (simp add: config_values_def mcp_factory_args create_custom_llm_config_def)
next
  show "config_values ''temperature'' (calls (minion_respond_async_without_mcp w pcs dc query pm
         a k b v m t n route qt ch))
       = [Some (if pm \<noteq> ''Custom'' then PyFloat (temperature (preset_get pcs pm dc))
                else float_val t)]"
    using plain_factory_args_custom [of w pcs dc query a k b v m t n route qt ch]
      plain_factory_args_preset [of pm w pcs dc query a k b v m t n route qt ch]
    by (cases "pm = ''Custom''")
      (simp_all add: config_values_def create_custom_llm_config_def)
next
  show "config_values ''max_tokens'' (calls (minion_respond_async_without_mcp w pcs dc query pm
         a k b v m t n route qt ch))
       = [Some (if pm \<noteq> ''Custom'' then PyInt (max_tokens (preset_get pcs pm dc))
                else int_val n)]"
    using plain_factory_args_custom [of w pcs dc query a k b v m t n route qt ch]
      plain_factory_args_preset [of pm w pcs dc query a k b v m t n route qt ch]
    by (cases "pm = ''Custom''")
      (simp_all add: config_values_def create_custom_llm_config_def)
qed

theorem numbers_checked_only_at_import_witness:
  "env_hot ''DEFAULT_TEMPERATURE'' = Some ''hot'' \<and> decimal_float ''hot'' = None
   \<and> module_globals decimal_float decimal_int env_hot = Inl ValueError
   \<and> calls (app_with_mcp decimal_float decimal_int (sample_world ''1.0'' ''x'') env_hot
        ''What is 2+2?'' ''gpt-4o'' None None None None None None None [] ''calculate'' False
        True) = []
   \<and> calls (app_without_mcp decimal_float decimal_int (sample_world ''1.0'' ''x'') env_hot
        ''What is 2+2?'' ''gpt-4o'' None None None None None None None [] ''calculate'' False)
        = []
   \<and> get_default_config decimal_float decimal_int env_empty = Inr default_config_0
   \<and> env_empty ''DEFAULT_TEMPERATURE'' = None
   \<and> decimal_float ''0.7'' = Some (temperature default_config_0)
   \<and> decimal_int ''4000'' = Some (max_tokens default_config_0)"
  using numbers_checked_only_at_import [where prefix = "''DEFAULT''" and e = env_hot
      and s = "''hot''" and float_of = decimal_float and int_of = decimal_int
      and w = "sample_world ''1.0'' ''x''" and query = "''What is 2+2?''" and pm = "''gpt-4o''"
      and a = None and k = None and b = None and v = None and m = None and t = None
      and n = None and route = "[]" and qt = "''calculate''" and ch = False and ut = True]
    numbers_checked_only_at_import [where prefix = "''DEFAULT''" and e = env_empty
      and float_of = decimal_float and int_of = decimal_int and c' = default_config_0]
  by (simp add: env_hot_def env_empty_def decimal_float_literals decimal_int_4000
      get_default_config_def config_from_env_def getenv_def default_config_0_def)

text \<open>
  The claim as stated fails for the numbers of a request. With temperatures represented
  by their text, \<^verbatim>\<open>hot\<close> is no number (\<^verbatim>\<open>float\<close> rejects it); a request that supplies it
  as its temperature raises nothing: the provider factory receives it, the engine is
  called and its observation is returned. This holds with MCP, and without MCP for the
  preset \<^verbatim>\<open>"Custom"\<close>.
\<close>

theorem unchecked_request_temperature_counterexample:
  "decimal_float ''hot'' = None
   \<and> config_values ''temperature'' (calls (minion_respond_async (sample_world ''1.0'' ''x'')
         env_empty default_config_0 None ''What is 2+2?'' ''gpt-4o'' None None None None None
         (Some ''hot'') None [] ''calculate'' False False)) = [Some (PyFloat ''hot'')]
   \<and> payload_values ''query'' (calls (minion_respond_async (sample_world ''1.0'' ''x'')
         env_empty default_config_0 None ''What is 2+2?'' ''gpt-4o'' None None None None None
         (Some ''hot'') None [] ''calculate'' False False)) = [Some (PyStr ''What is 2+2?'')]
   \<and> returned (minion_respond_async (sample_world ''1.0'' ''x'')
         env_empty default_config_0 None ''What is 2+2?'' ''gpt-4o'' None None None None None
         (Some ''hot'') None [] ''calculate'' False False) = Inr ''4''
   \<and> config_values ''temperature'' (calls (minion_respond_async_without_mcp
         (sample_world ''1.0'' ''x'') preset_configs_0 default_config_0 ''What is 2+2?''
         ''Custom'' (Some ''azure'') (Some []) (Some []) (Some ''2024-06-01'') (Some ''gpt-4o'')
         (Some ''hot'') (Some 4000) [] ''calculate'' False)) = [Some (PyFloat ''hot'')]
   \<and> payload_values ''query'' (calls (minion_respond_async_without_mcp
         (sample_world ''1.0'' ''x'') preset_configs_0 default_config_0 ''What is 2+2?''
         ''Custom'' (Some ''azure'') (Some []) (Some []) (Some ''2024-06-01'') (Some ''gpt-4o'')
         (Some ''hot'') (Some 4000) [] ''calculate'' False)) = [Some (PyStr ''What is 2+2?'')]
   \<and> returned (minion_respond_async_without_mcp
         (sample_world ''1.0'' ''x'') preset_configs_0 default_config_0 ''What is 2+2?''
         ''Custom'' (Some ''azure'') (Some []) (Some []) (Some ''2024-06-01'') (Some ''gpt-4o'')
         (Some ''hot'') (Some 4000) [] ''calculate'' False) = Inr ''4''"
  by (simp add: decimal_float_literals config_values_def payload_values_def
      minion_respond_async_def minion_respond_async_without_mcp_def
      build_brain_with_config_def create_custom_llm_config_def sample_world_def
      unpack_obs_def float_val_def Let_def)

section \<open>Tool assembly under partial failure\<close>

lemma add_tool_names:
  "set (map name (foldl add_tool c ts)) = set (map name c) \<union> set (map name ts)"
  by (induction ts arbitrary: c) (auto simp: add_tool_def)

lemma add_tool_subset: "set (foldl add_tool c ts) \<subseteq> set c \<union> set ts"
  by (induction ts arbitrary: c) (fastforce simp: add_tool_def split: if_splits)+

lemma add_tool_distinct:
  "distinct (map name (c @ ts)) \<Longrightarrow> foldl add_tool c ts = c @ ts"
proof (induction ts arbitrary: c)
  case Nil
  then show ?case by simp
next
  case (Cons t ts)
  from Cons.prems have "name t \<notin> set (map name c)" by auto
  then have "add_tool c t = c @ [t]" by (simp add: add_tool_def)
  moreover from Cons.prems have "distinct (map name ((c @ [t]) @ ts))" by simp
  ultimately show ?case using Cons.IH [of "c @ [t]"] by simp
qed

text \<open>A first call of \<open>setup_mcp_tools\<close> whose client enters: the client it leaves, the
  calls it makes and the lines it prints.\<close>

lemma setup_fresh_client:
  assumes "client_aenter w = None"
  shows "returned (setup_mcp_tools w e None)
           = Inr \<lparr> catalog = union_catalog (remaining_tools w e) \<rparr>"
    and "mcp_client (setup_mcp_tools w e None)
           = Some \<lparr> catalog = union_catalog (remaining_tools w e) \<rparr>"
  using assms
  by (auto simp: setup_mcp_tools_def try_add_def register_tools_def new_MCPBrainClient_def
      remaining_tools_def attempted_sources_def connected_tools_def union_catalog_def Let_def
      split: option.splits sum.splits)

lemma setup_fresh_calls:
  assumes "client_aenter w = None"
  shows "calls (setup_mcp_tools w e None) =
           [ClientEnter, AddFilesystemTool]
           @ (case env_truthy e ''MCP_SSE_URL'' of
                None \<Rightarrow> [] | Some u \<Rightarrow> [AddMCPServer ''sse'' u])
           @ (case env_truthy e ''MCP_STDIO_COMMAND'' of
                None \<Rightarrow> [] | Some c \<Rightarrow> [AddMCPServer ''stdio'' c])"
  using assms
  by (auto simp: setup_mcp_tools_def try_add_def Let_def split: option.splits sum.splits)

lemma setup_fresh_printed:
  assumes "client_aenter w = None"
  shows "printed (setup_mcp_tools w e None) =
           [case filesystem_source w of
              Inl x \<Rightarrow> FailedFilesystemTool x | Inr ts \<Rightarrow> AddedFilesystemTool]
           @ (case env_truthy e ''MCP_SSE_URL'' of
                None \<Rightarrow> []
              | Some u \<Rightarrow> [case mcp_server_source w ''sse'' u of
                             Inl x \<Rightarrow> FailedSSEServer x | Inr ts \<Rightarrow> AddedSSEServer u])
           @ (case env_truthy e ''MCP_STDIO_COMMAND'' of
                None \<Rightarrow> []
              | Some c \<Rightarrow> [case mcp_server_source w ''stdio'' c of
                             Inl x \<Rightarrow> FailedStdioServer x | Inr ts \<Rightarrow> AddedStdioServer c])"
  using assms
  by (auto simp: setup_mcp_tools_def try_add_def Let_def split: option.splits sum.splits)

lemma get_available_tools_fresh:
  assumes "client_aenter w = None" and "create_final_answer_tool w = Inr fa"
  shows "returned (get_available_tools w e None) = Inr (union_catalog (remaining_tools w e))"
    and "printed (get_available_tools w e None) = printed (setup_mcp_tools w e None)"
  using assms setup_fresh_client(1) [of w e]
  by (simp_all add: get_available_tools_def get_tools_for_brain_def Let_def)

text \<open>
  Claim C5. On the call that builds the client (the client enters and the final answer
  tool is created), whichever of the attempted sources raise while connecting or listing
  their tools, \<open>get_available_tools\<close> raises nothing and returns the catalog made of the
  tools of the sources that did not raise: its tool names are exactly theirs, it has no
  other tool, and it is their concatenation in registration order when no name occurs
  twice. Every source is attempted whatever happened to the ones before it, and each
  failure is printed as a warning.
\<close>

theorem source_failures_are_isolated:
  assumes "client_aenter w = None" and "create_final_answer_tool w = Inr fa"
  shows "returned (get_available_tools w e None) = Inr (union_catalog (remaining_tools w e))
     \<and> set (map name (union_catalog (remaining_tools w e)))
         = set (map name (remaining_tools w e))
     \<and> set (union_catalog (remaining_tools w e)) \<subseteq> set (remaining_tools w e)
     \<and> (distinct (map name (remaining_tools w e))
          \<longrightarrow> union_catalog (remaining_tools w e) = remaining_tools w e)
     \<and> AddFilesystemTool \<in> set (calls (get_available_tools w e None))
     \<and> (\<forall>u. env_truthy e ''MCP_SSE_URL'' = Some u
          \<longrightarrow> AddMCPServer ''sse'' u \<in> set (calls (get_available_tools w e None)))
     \<and> (\<forall>c. env_truthy e ''MCP_STDIO_COMMAND'' = Some c
          \<longrightarrow> AddMCPServer ''stdio'' c \<in> set (calls (get_available_tools w e None)))
     \<and> (\<forall>x. filesystem_source w = Inl x
          \<longrightarrow> FailedFilesystemTool x \<in> set (printed (get_available_tools w e None)))
     \<and> (\<forall>u x. env_truthy e ''MCP_SSE_URL'' = Some u \<and> mcp_server_source w ''sse'' u = Inl x
          \<longrightarrow> FailedSSEServer x \<in> set (printed (get_available_tools w e None)))
     \<and> (\<forall>c x. env_truthy e ''MCP_STDIO_COMMAND'' = Some c
                \<and> mcp_server_source w ''stdio'' c = Inl x
          \<longrightarrow> FailedStdioServer x \<in> set (printed (get_available_tools w e None)))"
proof (intro conjI)
  show "returned (get_available_tools w e None) = Inr (union_catalog (remaining_tools w e))"
    using assms by (rule get_available_tools_fresh(1))
  show "set (map name (union_catalog (remaining_tools w e)))
         = set (map name (remaining_tools w e))"
    using add_tool_names [of "[]"] by (simp add: union_catalog_def)
  show "set (union_catalog (remaining_tools w e)) \<subseteq> set (remaining_tools w e)"
    using add_tool_subset [of "[]"] by (simp add: union_catalog_def)
  show "distinct (map name (remaining_tools w e))
          \<longrightarrow> union_catalog (remaining_tools w e) = remaining_tools w e"
    using add_tool_distinct [of "[]"] by (simp add: union_catalog_def)
  show "AddFilesystemTool \<in> set (calls (get_available_tools w e None))"
    by (simp add: get_available_tools_calls setup_fresh_calls [OF assms(1)])
  show "\<forall>u. env_truthy e ''MCP_SSE_URL'' = Some u
          \<longrightarrow> AddMCPServer ''sse'' u \<in> set (calls (get_available_tools w e None))"
    by (simp add: get_available_tools_calls setup_fresh_calls [OF assms(1)])
  show "\<forall>c. env_truthy e ''MCP_STDIO_COMMAND'' = Some c
          \<longrightarrow> AddMCPServer ''stdio'' c \<in> set (calls (get_available_tools w e None))"
    by (simp add: get_available_tools_calls setup_fresh_calls [OF assms(1)])
  show "\<forall>x. filesystem_source w = Inl x
          \<longrightarrow> FailedFilesystemTool x \<in> set (printed (get_available_tools w e None))"
    by (simp add: get_available_tools_fresh(2) [OF assms] setup_fresh_printed [OF assms(1)])
  show "\<forall>u x. env_truthy e ''MCP_SSE_URL'' = Some u \<and> mcp_server_source w ''sse'' u = Inl x
          \<longrightarrow> FailedSSEServer x \<in> set (printed (get_available_tools w e None))"
    by (simp add: get_available_tools_fresh(2) [OF assms] setup_fresh_printed [OF assms(1)])
  show "\<forall>c x. env_truthy e ''MCP_STDIO_COMMAND'' = Some c
                \<and> mcp_server_source w ''stdio'' c = Inl x
          \<longrightarrow> FailedStdioServer x \<in> set (printed (get_available_tools w e None))"
    by (simp add: get_available_tools_fresh(2) [OF assms] setup_fresh_printed [OF assms(1)])
qed

theorem source_failures_are_isolated_witness:
  "client_aenter (sample_world ''1.0'' ''x'') = None
   \<and> create_final_answer_tool (sample_world ''1.0'' ''x'') = Inr final_answer_tool
   \<and> env_truthy env_sse_stdio ''MCP_SSE_URL'' = Some ''http://localhost:8000/sse''
   \<and> mcp_server_source (sample_world ''1.0'' ''x'') ''sse'' ''http://localhost:8000/sse''
       = Inl (Raised ''connection refused'')
   \<and> returned (get_available_tools (sample_world ''1.0'' ''x'') env_sse_stdio None)
       = Inr [read_file_tool, list_directory_tool, calculator_tool, echo_tool]
   \<and> AddMCPServer ''stdio'' ''python example_mcp_server.py''
       \<in> set (calls (get_available_tools (sample_world ''1.0'' ''x'') env_sse_stdio None))
   \<and> FailedSSEServer (Raised ''connection refused'')
       \<in> set (printed (get_available_tools (sample_world ''1.0'' ''x'') env_sse_stdio None))"
  using source_failures_are_isolated [of "sample_world ''1.0'' ''x''" final_answer_tool
      env_sse_stdio]
  by (simp add: sample_world_def env_sse_stdio_def env_truthy_def remaining_tools_def
      attempted_sources_def connected_tools_def union_catalog_def add_tool_def
      read_file_tool_def list_directory_tool_def calculator_tool_def echo_tool_def)

section \<open>The final answer tool\<close>


section \<open>Reuse of the client\<close>

text \<open>
  Called one after the other, \<open>setup_mcp_tools\<close> builds a client at most once: every call
  leaves a client in the global, and a call that finds one returns it as it is, enters
  no client and registers no source.
\<close>

lemma setup_mcp_tools_leaves_client: "\<exists>c. mcp_client (setup_mcp_tools w e g) = Some c"
  by (cases g; cases "client_aenter w")
    (simp_all add: setup_mcp_tools_def Let_def split: prod.splits)

lemma setup_mcp_tools_reuse:
  "setup_mcp_tools w e (Some c)
     = \<lparr> returned = Inr c, calls = [], printed = [], mcp_client = Some c \<rparr>"
  by (simp add: setup_mcp_tools_def)

end
